theory Spec2Isabelle
  imports Main
begin

section \<open>Values, outcomes and promises\<close>

text \<open>
  The handler-composition engine of \<^verbatim>\<open>src/daisugi/daisugi.ts\<close>.

  JavaScript values, as far as the engine looks at them. An object is the list of its
  own fields. The only function values the engine itself puts into a value are the
  closures returned by \<^verbatim>\<open>decorateWithExceptionCapture\<close> (the \<^verbatim>\<open>handler\<close> field of a
  jump signal): such a closure is represented by the wrapped handler it closes over, a
  reference (pipeline number, position) into the factory, or nothing when it closes over
  \<^verbatim>\<open>undefined\<close>. \<^verbatim>\<open>VTypeError\<close> is the \<^verbatim>\<open>TypeError\<close> the runtime raises when a property of
  \<^verbatim>\<open>undefined\<close> is read or a non-function is called.

  A promise is represented by its settlement: resolved with a value, rejected with a
  reason, or never settled. A callback chained to a promise is therefore run where it is
  chained, and its effects are placed there: the model tells which handlers run, on which
  arguments, in which order along the chain, and how the returned promise settles, but not
  how the callbacks interleave with what the caller does before the promise settles.
\<close>

type_synonym href = "nat \<times> nat"

datatype val =
    VUndefined
  | VNull
  | VBool bool
  | VNum int
  | VStr string
  | VArr "val list"
  | VObj "(string \<times> val) list"
  | VCapture "href option"
  | VTypeError
  | VResolved val
  | VRejected val
  | VPending

datatype outcome = Return val | Throw val

definition abortExceptionCode :: string where
  "abortExceptionCode = ''DAISUGI:ABORT''"

definition jumpExceptionCode :: string where
  "jumpExceptionCode = ''DAISUGI:JUMP''"

definition stopPropagationExceptionCode :: string where
  "stopPropagationExceptionCode = ''DAISUGI:STOP_PROPAGATION''"

text \<open>Reading a property: own fields of an object; every other value has none.\<close>

fun field :: "string \<Rightarrow> val \<Rightarrow> val" where
  "field k (VObj fs) = (case map_of fs k of Some v \<Rightarrow> v | None \<Rightarrow> VUndefined)"
| "field k v = VUndefined"

fun nullish :: "val \<Rightarrow> bool" where
  "nullish VUndefined = True"
| "nullish VNull = True"
| "nullish v = False"

text \<open>\<^verbatim>\<open>args[0]\<close>: \<^verbatim>\<open>undefined\<close> when no argument was passed.\<close>

fun arg0 :: "val list \<Rightarrow> val" where
  "arg0 [] = VUndefined"
| "arg0 (a # as) = a"

text \<open>\<^verbatim>\<open>abortWith\<close> throws its signal; \<^verbatim>\<open>stopPropagationWith\<close> returns its signal as a value.\<close>

definition abortSignal :: "val \<Rightarrow> val" where
  "abortSignal result = VObj [(''code'', VStr abortExceptionCode), (''result'', result)]"

definition abortWith :: "val \<Rightarrow> outcome" where
  "abortWith result = Throw (abortSignal result)"

definition stopPropagationWith :: "val \<Rightarrow> val" where
  "stopPropagationWith result =
     VObj [(''code'', VStr stopPropagationExceptionCode), (''result'', result)]"

text \<open>
  \<^verbatim>\<open>Promise.resolve(x)\<close> keeps a promise and wraps any other value; the result a promise
  callback or an async function body settles its promise with.
\<close>

fun is_promise :: "val \<Rightarrow> bool" where
  "is_promise (VResolved v) = True"
| "is_promise (VRejected e) = True"
| "is_promise VPending = True"
| "is_promise v = False"

definition promise_resolve :: "val \<Rightarrow> val" where
  "promise_resolve v = (if is_promise v then v else VResolved v)"

fun settle :: "outcome \<Rightarrow> outcome" where
  "settle (Return v) = Return (promise_resolve v)"
| "settle (Throw e) = Return (VRejected e)"

section \<open>Handlers, the toolkit and the factory\<close>

text \<open>
  A user handler is a function with effects on a state \<^typ>\<open>'s\<close> of the application, which
  returns or throws. What the engine reads of it: the name of its constructor
  (\<^verbatim>\<open>'AsyncFunction'\<close> for a function declared \<^verbatim>\<open>async\<close>), and \<^verbatim>\<open>meta.name\<close> and
  \<^verbatim>\<open>meta.injectToolkit\<close>. Its body receives the call's arguments and, when the toolkit is
  injected, the toolkit as last argument. The toolkit's \<^verbatim>\<open>abortWith\<close>, \<^verbatim>\<open>next\<close> and \<^verbatim>\<open>abort\<close> are
  the fields \<open>tk_abortWith\<close>, \<open>tk_next\<close> and \<open>tk_abort\<close>; the two accessors are evaluated
  when they are read, so \<open>tk_next\<close> is a computation and \<open>tk_abort\<close> what reading it throws.
\<close>

record 's toolkit =
  nextWith :: "val list \<Rightarrow> 's \<Rightarrow> outcome \<times> 's"
  tk_abortWith :: "val \<Rightarrow> outcome"
  jumpTo :: "string \<Rightarrow> val list \<Rightarrow> outcome"
  tk_next :: "'s \<Rightarrow> outcome \<times> 's"
  tk_abort :: "outcome"

type_synonym 's callable = "val list \<Rightarrow> 's toolkit option \<Rightarrow> 's \<Rightarrow> outcome \<times> 's"

type_synonym 's decorator = "'s callable \<Rightarrow> 's toolkit option \<Rightarrow> 's callable"

record 's uhandler =
  constructor_name :: string
  meta_name :: "string option"
  meta_injectToolkit :: bool
  body :: "'s callable"

definition isFnAsync :: "'s uhandler \<Rightarrow> bool" where
  "isFnAsync h = (constructor_name h = ''AsyncFunction'')"

text \<open>
  Calling the user's function: a function declared \<^verbatim>\<open>async\<close> never throws to its caller,
  it returns a promise settled by what its body returns or throws. The functions whose
  constructor is named \<^verbatim>\<open>'AsyncFunction'\<close> are taken to be the functions declared \<^verbatim>\<open>async\<close>:
  an ordinary function with a forged constructor is not a handler of this model.
\<close>

definition call_user :: "'s uhandler \<Rightarrow> 's callable" where
  "call_user h args tk s =
     (if isFnAsync h then (case body h args tk s of (out, s') \<Rightarrow> (settle out, s'))
      else body h args tk s)"

text \<open>
  The wrapped handler that \<^verbatim>\<open>decorateHandler\<close> returns, as stored in the \<^verbatim>\<open>handlers\<close> array
  of its pipeline: the user handler it closes over and its \<^verbatim>\<open>__meta__\<close>. Its successor is
  the next element of the array (\<^verbatim>\<open>nextHandlerIndex\<close>).
\<close>

record 's wrapped =
  userHandler :: "'s uhandler"
  isAsync :: bool
  shouldBeTreatAsAsync :: bool

type_synonym registry = "string \<Rightarrow> href option"

record 's factory =
  userHandlerDecorators :: "'s decorator list"
  pipelines :: "'s wrapped list list"
  globalHandlersByName :: registry

section \<open>Building a pipeline\<close>

text \<open>
  The build-time part of \<^verbatim>\<open>decorateHandler\<close>, for the user handler that will be pushed at
  position \<open>length handlers\<close> of pipeline \<open>p\<close>: the wrapped handler with its \<^verbatim>\<open>__meta__\<close>, the
  registration under a non-empty \<^verbatim>\<open>meta.name\<close>, and, for an async handler, the mark set on
  every handler already in the array.
\<close>

definition markAsync :: "'s wrapped \<Rightarrow> 's wrapped" where
  "markAsync w = w\<lparr>shouldBeTreatAsAsync := True\<rparr>"

definition register :: "string option \<Rightarrow> href \<Rightarrow> registry \<Rightarrow> registry" where
  "register name r reg =
     (case name of
        None \<Rightarrow> reg
      | Some n \<Rightarrow> if n = [] then reg else reg(n := Some r))"

definition decorateHandler ::
  "'s uhandler \<Rightarrow> nat \<Rightarrow> 's wrapped list \<Rightarrow> registry \<Rightarrow> 's wrapped \<times> 's wrapped list \<times> registry" where
  "decorateHandler h p handlers reg =
     (\<lparr>userHandler = h, isAsync = isFnAsync h, shouldBeTreatAsAsync = isFnAsync h\<rparr>,
      if isFnAsync h then map markAsync handlers else handlers,
      register (meta_name h) (p, length handlers) reg)"

text \<open>\<^verbatim>\<open>add\<close>: each user handler is wrapped and pushed before the next one is wrapped.\<close>

fun add :: "'s uhandler list \<Rightarrow> nat \<Rightarrow> 's wrapped list \<Rightarrow> registry \<Rightarrow> 's wrapped list \<times> registry" where
  "add [] p handlers reg = (handlers, reg)"
| "add (h # hs) p handlers reg =
     (case decorateHandler h p handlers reg of
        (w, handlers', reg') \<Rightarrow> add hs p (handlers' @ [w]) reg')"

text \<open>
  \<^verbatim>\<open>daisugi(userHandlerDecorators)\<close> makes a factory with an empty registry. \<^verbatim>\<open>pipeline()\<close>
  starts a new, empty \<^verbatim>\<open>handlers\<close> array, the next pipeline of the factory, and \<^verbatim>\<open>add\<close> fills
  it; the registry is the factory's, shared by its pipelines. \<^verbatim>\<open>sequenceOf\<close> returns
  \<^verbatim>\<open>handlers[0]\<close> (nothing for an empty array), \<^verbatim>\<open>entrySequenceOf\<close> the closure of
  \<^verbatim>\<open>decorateWithExceptionCapture\<close> over it. Handlers are invoked in a factory as built so
  far: \<^verbatim>\<open>jumpTo\<close> reads the registry, and a wrapper reads the marks, of that moment.
\<close>

definition daisugi :: "'s decorator list \<Rightarrow> 's factory" where
  "daisugi ds = \<lparr>userHandlerDecorators = ds, pipelines = [], globalHandlersByName = Map.empty\<rparr>"

definition pipeline_add :: "'s uhandler list \<Rightarrow> 's factory \<Rightarrow> 's factory" where
  "pipeline_add hs F =
     (case add hs (length (pipelines F)) [] (globalHandlersByName F) of
        (handlers, reg) \<Rightarrow>
          F\<lparr>pipelines := pipelines F @ [handlers], globalHandlersByName := reg\<rparr>)"

definition first_handler :: "'s uhandler list \<Rightarrow> 's factory \<Rightarrow> href option" where
  "first_handler hs F = (if hs = [] then None else Some (length (pipelines F), 0))"

definition sequenceOf :: "'s uhandler list \<Rightarrow> 's factory \<Rightarrow> href option \<times> 's factory" where
  "sequenceOf hs F = (first_handler hs F, pipeline_add hs F)"

definition entrySequenceOf :: "'s uhandler list \<Rightarrow> 's factory \<Rightarrow> val \<times> 's factory" where
  "entrySequenceOf hs F = (VCapture (first_handler hs F), pipeline_add hs F)"

section \<open>Invoking a wrapped handler\<close>

text \<open>\<^verbatim>\<open>p.then(f)\<close> and \<^verbatim>\<open>Promise.resolve(e)\<close>, where evaluating the receiver may throw.\<close>

fun then_val :: "val \<Rightarrow> 's \<Rightarrow> (val list \<Rightarrow> 's \<Rightarrow> outcome \<times> 's) \<Rightarrow> outcome \<times> 's" where
  "then_val (VResolved v) s f = (case f [v] s of (out, s') \<Rightarrow> (settle out, s'))"
| "then_val (VRejected e) s f = (Return (VRejected e), s)"
| "then_val VPending s f = (Return VPending, s)"
| "then_val v s f = (Throw VTypeError, s)"

fun then_method :: "outcome \<times> 's \<Rightarrow> (val list \<Rightarrow> 's \<Rightarrow> outcome \<times> 's) \<Rightarrow> outcome \<times> 's" where
  "then_method (Return v, s) f = then_val v s f"
| "then_method (Throw e, s) f = (Throw e, s)"

fun Promise_resolve :: "outcome \<times> 's \<Rightarrow> outcome \<times> 's" where
  "Promise_resolve (Return v, s) = (Return (promise_resolve v), s)"
| "Promise_resolve (Throw e, s) = (Throw e, s)"

text \<open>The signal \<^verbatim>\<open>toolkit.jumpTo(name, ...args)\<close> throws.\<close>

definition jumpSignal :: "registry \<Rightarrow> string \<Rightarrow> val list \<Rightarrow> val" where
  "jumpSignal reg name args =
     VObj [(''code'', VStr jumpExceptionCode),
           (''handler'', VCapture (reg name)),
           (''args'', VArr args)]"

text \<open>
  The toolkit of one invocation with arguments \<open>args\<close>: \<^verbatim>\<open>nextWith\<close> calls the successor,
  or returns \<^verbatim>\<open>null\<close> when there is none; the accessors \<^verbatim>\<open>next\<close> and \<^verbatim>\<open>abort\<close> close over
  the arguments of the call.
\<close>

definition make_toolkit ::
  "(val list \<Rightarrow> 's \<Rightarrow> outcome \<times> 's) option \<Rightarrow> registry \<Rightarrow> val list \<Rightarrow> 's toolkit" where
  "make_toolkit nextHandler reg args =
     \<lparr>nextWith = (\<lambda>a s. case nextHandler of Some f \<Rightarrow> f a s | None \<Rightarrow> (Return VNull, s)),
      tk_abortWith = abortWith,
      jumpTo = (\<lambda>name a. Throw (jumpSignal reg name a)),
      tk_next = (\<lambda>s. case nextHandler of Some f \<Rightarrow> f args s | None \<Rightarrow> (Return VNull, s)),
      tk_abort = abortWith (arg0 args)\<rparr>"

text \<open>
  \<^verbatim>\<open>userHandlerDecorators.reduce(...)\<close>, each decorator given the previous handler and the
  toolkit (\<^verbatim>\<open>undefined\<close> without injection). A decorator is a function from handlers to
  handlers, so decorating once when the pipeline is built and decorating at each call
  give the same function; the toolkit it is given is the one of the call.
\<close>

definition decoratedUserHandler ::
  "'s decorator list \<Rightarrow> 's uhandler \<Rightarrow> 's toolkit option \<Rightarrow> 's callable" where
  "decoratedUserHandler ds h tk = foldl (\<lambda>previousHandler d. d previousHandler tk) (call_user h) ds"

text \<open>
  The function \<^verbatim>\<open>handler(...args)\<close> of \<^verbatim>\<open>decorateHandler\<close>, for the wrapped handler at the head
  of the list; the tail is the rest of its \<^verbatim>\<open>handlers\<close> array, so the successor is the head
  of the tail. Calling an absent handler is a \<^verbatim>\<open>TypeError\<close>.
\<close>

primrec handler ::
  "'s wrapped list \<Rightarrow> registry \<Rightarrow> 's decorator list \<Rightarrow> val list \<Rightarrow> 's \<Rightarrow> outcome \<times> 's" where
  "handler [] reg ds args s = (Throw VTypeError, s)"
| "handler (w # rest) reg ds args s =
     (if field ''code'' (arg0 args) = VStr stopPropagationExceptionCode
      then (Return (field ''result'' (arg0 args)), s)
      else if meta_injectToolkit (userHandler w)
      then (let toolkit = make_toolkit (if rest = [] then None else Some (handler rest reg ds)) reg args
            in decoratedUserHandler ds (userHandler w) (Some toolkit) args (Some toolkit) s)
      else (case rest of
              [] \<Rightarrow> decoratedUserHandler ds (userHandler w) None args None s
            | nextHandler # _ \<Rightarrow>
                if isAsync w
                then then_method (decoratedUserHandler ds (userHandler w) None args None s)
                       (handler rest reg ds)
                else if shouldBeTreatAsAsync nextHandler
                then then_method
                       (Promise_resolve (decoratedUserHandler ds (userHandler w) None args None s))
                       (handler rest reg ds)
                else (case decoratedUserHandler ds (userHandler w) None args None s of
                        (Return v, s') \<Rightarrow> handler rest reg ds [v] s'
                      | (Throw e, s') \<Rightarrow> (Throw e, s'))))"

text \<open>The wrapped handlers from a reference on: nothing for a reference to no handler.\<close>

definition handlers_from :: "'s factory \<Rightarrow> href \<Rightarrow> 's wrapped list" where
  "handlers_from F r =
     (if fst r < length (pipelines F) then drop (snd r) (pipelines F ! fst r) else [])"

definition invoke :: "'s factory \<Rightarrow> href option \<Rightarrow> val list \<Rightarrow> 's \<Rightarrow> outcome \<times> 's" where
  "invoke F r args s =
     (case r of
        None \<Rightarrow> (Throw VTypeError, s)
      | Some h \<Rightarrow> handler (handlers_from F h) (globalHandlersByName F) (userHandlerDecorators F) args s)"

section \<open>The control-signal interpreter\<close>

text \<open>
  \<^verbatim>\<open>captureException\<close>. The target of a jump is a closure of \<^verbatim>\<open>decorateWithExceptionCapture\<close>;
  \<open>capture\<close> is how such a closure is run. Reading \<^verbatim>\<open>code\<close> of \<^verbatim>\<open>null\<close> or \<^verbatim>\<open>undefined\<close> is a
  \<^verbatim>\<open>TypeError\<close>, as is calling a non-function or spreading a non-iterable. The registry is
  read by name for the names that handlers are registered under; the properties that
  every object inherits (\<^verbatim>\<open>constructor\<close>, \<^verbatim>\<open>toString\<close>, ...) are not handler names here.
\<close>

type_synonym 's capture = "href option \<Rightarrow> val list \<Rightarrow> 's \<Rightarrow> (outcome \<times> 's) option"

fun spread :: "val \<Rightarrow> val list option" where
  "spread (VArr as) = Some as"
| "spread (VStr cs) = Some (map (\<lambda>c. VStr [c]) cs)"
| "spread v = None"

fun call_value :: "'s capture \<Rightarrow> val \<Rightarrow> val list \<Rightarrow> 's \<Rightarrow> (outcome \<times> 's) option" where
  "call_value capture (VCapture r) args s = capture r args s"
| "call_value capture f args s = Some (Throw VTypeError, s)"

definition captureException :: "'s capture \<Rightarrow> val \<Rightarrow> 's \<Rightarrow> (outcome \<times> 's) option" where
  "captureException capture error s =
     (if nullish error then Some (Throw VTypeError, s)
      else if field ''code'' error = VStr abortExceptionCode
      then Some (Return (field ''result'' error), s)
      else if field ''code'' error = VStr jumpExceptionCode
      then (case spread (field ''args'' error) of
              None \<Rightarrow> Some (Throw VTypeError, s)
            | Some args \<Rightarrow> call_value capture (field ''handler'' error) args s)
      else Some (Throw error, s))"

text \<open>\<^verbatim>\<open>p.catch(captureException)\<close>: the callback runs on a rejection and settles the result.\<close>

fun catch_val :: "'s capture \<Rightarrow> val \<Rightarrow> 's \<Rightarrow> (outcome \<times> 's) option" where
  "catch_val capture (VRejected e) s =
     (case captureException capture e s of
        None \<Rightarrow> None
      | Some (out, s') \<Rightarrow> Some (settle out, s'))"
| "catch_val capture (VResolved v) s = Some (Return (VResolved v), s)"
| "catch_val capture VPending s = Some (Return VPending, s)"
| "catch_val capture v s = Some (Throw VTypeError, s)"

fun catch_method :: "'s capture \<Rightarrow> outcome \<times> 's \<Rightarrow> (outcome \<times> 's) option" where
  "catch_method capture (Return v, s) = catch_val capture v s"
| "catch_method capture (Throw e, s) = Some (Throw e, s)"

text \<open>
  The closure returned by \<^verbatim>\<open>decorateWithExceptionCapture(handler)\<close>, invoked on \<open>args\<close>. A jump
  may lead back to the chain it left, so an invocation need not end: the first argument
  bounds the number of nested interpreter closures that are entered (the entry point and
  one per jump), and the result is \<open>None\<close> when that bound is reached.
\<close>

primrec decorateWithExceptionCapture ::
  "nat \<Rightarrow> 's factory \<Rightarrow> href option \<Rightarrow> val list \<Rightarrow> 's \<Rightarrow> (outcome \<times> 's) option" where
  "decorateWithExceptionCapture 0 F r args s = None"
| "decorateWithExceptionCapture (Suc n) F r args s =
     (case r of
        None \<Rightarrow> Some (Throw VTypeError, s)
      | Some h \<Rightarrow>
          (case handlers_from F h of
             [] \<Rightarrow> Some (Throw VTypeError, s)
           | w # rest \<Rightarrow>
               if isAsync w
               then catch_method (decorateWithExceptionCapture n F) (invoke F r args s)
               else if shouldBeTreatAsAsync w
               then catch_method (decorateWithExceptionCapture n F)
                      (Promise_resolve (invoke F r args s))
               else (case invoke F r args s of
                       (Return v, s') \<Rightarrow> Some (Return v, s')
                     | (Throw e, s') \<Rightarrow> captureException (decorateWithExceptionCapture n F) e s')))"

text \<open>Calling a value as the entry point: only the interpreter's closures are callable.\<close>

fun call_entry :: "nat \<Rightarrow> 's factory \<Rightarrow> val \<Rightarrow> val list \<Rightarrow> 's \<Rightarrow> (outcome \<times> 's) option" where
  "call_entry n F (VCapture r) args s = decorateWithExceptionCapture n F r args s"
| "call_entry n F f args s = Some (Throw VTypeError, s)"

section \<open>Specification functions\<close>

text \<open>
  The array that \<^const>\<open>add\<close> leaves behind, written down directly: a handler carries the
  mark exactly when it or a handler after it is async.
\<close>

fun wraps :: "'s uhandler list \<Rightarrow> 's wrapped list" where
  "wraps [] = []"
| "wraps (h # hs) =
     \<lparr>userHandler = h, isAsync = isFnAsync h,
      shouldBeTreatAsAsync = (isFnAsync h \<or> list_ex isFnAsync hs)\<rparr> # wraps hs"

text \<open>
  Function composition of the chain \<open>h # hs\<close> in the words of the specification,
  \<open>h\<^sub>N(...h\<^sub>2(h\<^sub>1(args)))\<close>: the first function receives the arguments, each later one the
  value its predecessor returned, and an exception ends the evaluation.
\<close>

fun composition :: "'s uhandler \<Rightarrow> 's uhandler list \<Rightarrow> val list \<Rightarrow> 's \<Rightarrow> outcome \<times> 's" where
  "composition h [] args s = body h args None s"
| "composition h (h' # hs) args s =
     (case body h args None s of
        (Return v, s') \<Rightarrow> composition h' hs [v] s'
      | (Throw e, s') \<Rightarrow> (Throw e, s'))"

text \<open>
  No value that the composition feeds to one of its functions as first argument carries
  the stop-propagation code.
\<close>

fun stop_free :: "'s uhandler \<Rightarrow> 's uhandler list \<Rightarrow> val list \<Rightarrow> 's \<Rightarrow> bool" where
  "stop_free h [] args s = (field ''code'' (arg0 args) \<noteq> VStr stopPropagationExceptionCode)"
| "stop_free h (h' # hs) args s =
     (field ''code'' (arg0 args) \<noteq> VStr stopPropagationExceptionCode \<and>
      (case body h args None s of
         (Return v, s') \<Rightarrow> stop_free h' hs [v] s'
       | (Throw e, s') \<Rightarrow> True))"

text \<open>A handler that neither is async nor asks for the toolkit.\<close>

definition plain_sync :: "'s uhandler \<Rightarrow> bool" where
  "plain_sync h = (\<not> isFnAsync h \<and> \<not> meta_injectToolkit h)"

text \<open>
  The values \<^const>\<open>captureException\<close> interprets, and the outcomes it hands on as they are:
  a returned value, or a thrown value that is neither a signal nor \<^verbatim>\<open>null\<close> or \<^verbatim>\<open>undefined\<close>.
\<close>

definition is_signal :: "val \<Rightarrow> bool" where
  "is_signal e =
     (field ''code'' e = VStr abortExceptionCode \<or> field ''code'' e = VStr jumpExceptionCode)"

fun passes_interpreter :: "outcome \<Rightarrow> bool" where
  "passes_interpreter (Return v) = True"
| "passes_interpreter (Throw e) = (\<not> nullish e \<and> \<not> is_signal e)"

text \<open>
  The toolkit that a handler with the toolkit injected is called with, when its successor
  is the handler \<open>r\<close> and the call has the arguments \<open>args\<close>: \<^verbatim>\<open>nextWith\<close> and \<^verbatim>\<open>next\<close> are
  the only ways from the handler to its successor.
\<close>

definition successor_toolkit :: "'s factory \<Rightarrow> href \<Rightarrow> val list \<Rightarrow> 's toolkit" where
  "successor_toolkit F r args =
     make_toolkit (Some (invoke F (Some r))) (globalHandlersByName F) args"

text \<open>
  Which branch the closure of \<^verbatim>\<open>decorateWithExceptionCapture\<close> takes for a handler: it
  catches what the handler throws when \<^verbatim>\<open>__meta__\<close> has neither \<^verbatim>\<open>isAsync\<close> nor
  \<^verbatim>\<open>shouldBeTreatAsAsync\<close>, and it attaches \<^verbatim>\<open>catch\<close> to the promise the handler returns when
  \<^verbatim>\<open>__meta__\<close> has one of them.
\<close>

definition captures_throw :: "'s factory \<Rightarrow> href \<Rightarrow> bool" where
  "captures_throw F h =
     (case handlers_from F h of
        [] \<Rightarrow> False
      | w # rest \<Rightarrow> \<not> isAsync w \<and> \<not> shouldBeTreatAsAsync w)"

definition captures_rejection :: "'s factory \<Rightarrow> href \<Rightarrow> bool" where
  "captures_rejection F h =
     (case handlers_from F h of
        [] \<Rightarrow> False
      | w # rest \<Rightarrow> isAsync w \<or> shouldBeTreatAsAsync w)"

section \<open>Example handlers\<close>

text \<open>
  Handlers over a log of names as application state: each appends its name when it runs,
  so that the log tells which handlers were invoked, and in which order.
\<close>

type_synonym log = "string list"

text \<open>\<^verbatim>\<open>function tag(x) { log.push(nm); return [nm, x]; }\<close>\<close>

definition ex_tag :: "string \<Rightarrow> log uhandler" where
  "ex_tag nm =
     \<lparr>constructor_name = ''Function'', meta_name = None, meta_injectToolkit = False,
      body = (\<lambda>args tk s. (Return (VArr [VStr nm, arg0 args]), s @ [nm]))\<rparr>"

text \<open>The same function, with \<^verbatim>\<open>meta = { name }\<close>.\<close>

definition ex_named :: "string \<Rightarrow> string \<Rightarrow> log uhandler" where
  "ex_named name nm = (ex_tag nm)\<lparr>meta_name := Some name\<rparr>"

text \<open>\<^verbatim>\<open>async function tag(x) { log.push(nm); return [nm, x]; }\<close>\<close>

definition ex_async_tag :: "string \<Rightarrow> log uhandler" where
  "ex_async_tag nm = (ex_tag nm)\<lparr>constructor_name := ''AsyncFunction''\<rparr>"

text \<open>\<^verbatim>\<open>function stop(x) { log.push(nm); return stopPropagationWith(x); }\<close>\<close>

definition ex_stop :: "string \<Rightarrow> log uhandler" where
  "ex_stop nm =
     \<lparr>constructor_name = ''Function'', meta_name = None, meta_injectToolkit = False,
      body = (\<lambda>args tk s. (Return (stopPropagationWith (arg0 args)), s @ [nm]))\<rparr>"

text \<open>
  \<^verbatim>\<open>function stop(x, toolkit) { log.push(nm); return stopPropagationWith(x); }\<close>, with the
  toolkit injected.
\<close>

definition ex_toolkit_stop :: "string \<Rightarrow> log uhandler" where
  "ex_toolkit_stop nm = (ex_stop nm)\<lparr>meta_injectToolkit := True\<rparr>"

text \<open>\<^verbatim>\<open>function abort(x) { log.push(nm); abortWith(x); }\<close>\<close>

definition ex_abort :: "string \<Rightarrow> log uhandler" where
  "ex_abort nm =
     \<lparr>constructor_name = ''Function'', meta_name = None, meta_injectToolkit = False,
      body = (\<lambda>args tk s. (abortWith (arg0 args), s @ [nm]))\<rparr>"

text \<open>\<^verbatim>\<open>async function abort(x) { log.push(nm); abortWith(x); }\<close>\<close>

definition ex_async_abort :: "string \<Rightarrow> log uhandler" where
  "ex_async_abort nm = (ex_abort nm)\<lparr>constructor_name := ''AsyncFunction''\<rparr>"

text \<open>
  \<^verbatim>\<open>function lateAbort(x) { log.push(nm); return Promise.resolve().then(() => abortWith(x)); }\<close>:
  declared without \<^verbatim>\<open>async\<close>, it returns a promise, and aborts in a callback, so that the
  promise is rejected with the abort signal.
\<close>

definition ex_late_abort :: "string \<Rightarrow> log uhandler" where
  "ex_late_abort nm =
     \<lparr>constructor_name = ''Function'', meta_name = None, meta_injectToolkit = False,
      body = (\<lambda>args tk s. (Return (VRejected (abortSignal (arg0 args))), s @ [nm]))\<rparr>"

text \<open>\<^verbatim>\<open>function later(x) { log.push(nm); return Promise.resolve(x); }\<close>\<close>

definition ex_promise :: "string \<Rightarrow> log uhandler" where
  "ex_promise nm =
     \<lparr>constructor_name = ''Function'', meta_name = None, meta_injectToolkit = False,
      body = (\<lambda>args tk s. (Return (VResolved (arg0 args)), s @ [nm]))\<rparr>"

text \<open>\<^verbatim>\<open>function jump(x, toolkit) { log.push(nm); toolkit.jumpTo(target, x); }\<close>, with the toolkit injected.\<close>

definition ex_jump :: "string \<Rightarrow> string \<Rightarrow> log uhandler" where
  "ex_jump nm target =
     \<lparr>constructor_name = ''Function'', meta_name = None, meta_injectToolkit = True,
      body = (\<lambda>args tk s.
        case tk of
          None \<Rightarrow> (Throw VTypeError, s @ [nm])
        | Some toolkit \<Rightarrow> (jumpTo toolkit target [arg0 args], s @ [nm]))\<rparr>"

text \<open>\<^verbatim>\<open>async function jump(x, toolkit) { log.push(nm); toolkit.jumpTo(target, x); }\<close>\<close>

definition ex_async_jump :: "string \<Rightarrow> string \<Rightarrow> log uhandler" where
  "ex_async_jump nm target = (ex_jump nm target)\<lparr>constructor_name := ''AsyncFunction''\<rparr>"

text \<open>
  \<^verbatim>\<open>function around(x, toolkit) { toolkit.next; log.push(nm); return [nm, x]; }\<close>, with the toolkit
  injected: it runs its successor, drops what the successor returned and returns a value
  of its own.
\<close>

definition ex_around :: "string \<Rightarrow> log uhandler" where
  "ex_around nm =
     \<lparr>constructor_name = ''Function'', meta_name = None, meta_injectToolkit = True,
      body = (\<lambda>args tk s.
        case tk of
          None \<Rightarrow> (Throw VTypeError, s @ [nm])
        | Some toolkit \<Rightarrow>
            (case tk_next toolkit s of
               (Return v, s') \<Rightarrow> (Return (VArr [VStr nm, arg0 args]), s' @ [nm])
             | (Throw e, s') \<Rightarrow> (Throw e, s')))\<rparr>"

text \<open>
  A factory with six pipelines: a handler registered as \<^verbatim>\<open>x\<close>, and five chains of one
  handler each, which abort or jump to \<^verbatim>\<open>x\<close>, declared with and without \<^verbatim>\<open>async\<close>.
\<close>

definition ex_factory :: "log factory" where
  "ex_factory =
     pipeline_add [ex_late_abort ''late'']
       (pipeline_add [ex_async_jump ''aj'' ''x'']
         (pipeline_add [ex_async_abort ''aa'']
           (pipeline_add [ex_jump ''j'' ''x'']
             (pipeline_add [ex_abort ''a'']
               (pipeline_add [ex_named ''x'' ''target''] (daisugi []))))))"

text \<open>A factory in which no handler is registered as \<^verbatim>\<open>missing\<close>, and two chains that jump there.\<close>

definition ex_factory_missing :: "log factory" where
  "ex_factory_missing =
     pipeline_add [ex_async_jump ''aj'' ''missing'']
       (pipeline_add [ex_jump ''j'' ''missing''] (daisugi []))"

section \<open>Basic facts\<close>

lemma codes_distinct [simp]:
  "abortExceptionCode \<noteq> jumpExceptionCode" "jumpExceptionCode \<noteq> abortExceptionCode"
  "abortExceptionCode \<noteq> stopPropagationExceptionCode"
  "stopPropagationExceptionCode \<noteq> abortExceptionCode"
  "jumpExceptionCode \<noteq> stopPropagationExceptionCode"
  "stopPropagationExceptionCode \<noteq> jumpExceptionCode"
  by (simp_all add: abortExceptionCode_def jumpExceptionCode_def stopPropagationExceptionCode_def)

lemma abortSignal_fields [simp]:
  "field ''code'' (abortSignal R) = VStr abortExceptionCode"
  "field ''result'' (abortSignal R) = R"
  "\<not> nullish (abortSignal R)"
  by (simp_all add: abortSignal_def)

lemma jumpSignal_fields [simp]:
  "field ''code'' (jumpSignal reg name a) = VStr jumpExceptionCode"
  "field ''handler'' (jumpSignal reg name a) = VCapture (reg name)"
  "field ''args'' (jumpSignal reg name a) = VArr a"
  "\<not> nullish (jumpSignal reg name a)"
  by (simp_all add: jumpSignal_def)

lemma stop_fields [simp]:
  "field ''code'' (stopPropagationWith R) = VStr stopPropagationExceptionCode"
  "field ''result'' (stopPropagationWith R) = R"
  by (simp_all add: stopPropagationWith_def)

lemma captureException_abort [simp]:
  "captureException capture (abortSignal R) s = Some (Return R, s)"
  by (simp add: captureException_def)

lemma captureException_jump [simp]:
  "captureException capture (jumpSignal reg name a) s = capture (reg name) a s"
  by (simp add: captureException_def)

lemma captureException_other:
  "\<not> nullish e \<Longrightarrow> \<not> is_signal e \<Longrightarrow> captureException capture e s = Some (Throw e, s)"
  by (simp add: captureException_def is_signal_def)

text \<open>
  A value thrown while the call of a head that is async or marked is evaluated passes the
  entry wrapper as it is, a signal included: on that branch only \<^verbatim>\<open>catch\<close> of the returned
  promise leads to \<^const>\<open>captureException\<close>.
\<close>

lemma throw_passes_rejection_branch:
  "captures_rejection F h \<Longrightarrow> invoke F (Some h) args s = (Throw e, s') \<Longrightarrow>
   decorateWithExceptionCapture (Suc n) F (Some h) args s = Some (Throw e, s')"
  by (auto simp: captures_rejection_def split: list.splits)

subsection \<open>What \<open>add\<close> builds\<close>

text \<open>Both \<^const>\<open>sequenceOf\<close> and \<^const>\<open>entrySequenceOf\<close> leave the factory \<^const>\<open>pipeline_add\<close> builds.\<close>

lemma factory_after_build [simp]:
  "snd (sequenceOf hs F) = pipeline_add hs F" "snd (entrySequenceOf hs F) = pipeline_add hs F"
  by (simp_all add: sequenceOf_def entrySequenceOf_def)

lemma add_fst:
  "fst (add hs p handlers reg) =
     (if list_ex isFnAsync hs then map markAsync handlers else handlers) @ wraps hs"
proof (induction hs arbitrary: handlers reg)
  case Nil
  show ?case by simp
next
  case (Cons h hs)
  show ?case
    by (simp add: decorateHandler_def Cons.IH markAsync_def comp_def)
qed

lemma length_wraps [simp]: "length (wraps hs) = length hs"
  by (induction hs) auto

lemma wraps_nth:
  "i < length hs \<Longrightarrow> wraps hs ! i =
     \<lparr>userHandler = hs ! i, isAsync = isFnAsync (hs ! i),
      shouldBeTreatAsAsync = list_ex isFnAsync (drop i hs)\<rparr>"
proof (induction hs arbitrary: i)
  case Nil
  then show ?case by simp
next
  case (Cons h hs)
  then show ?case by (cases i) auto
qed

lemma drop_wraps: "drop i (wraps hs) = wraps (drop i hs)"
proof (induction hs arbitrary: i)
  case Nil
  show ?case by simp
next
  case (Cons h hs)
  then show ?case by (cases i) auto
qed

lemma pipelines_pipeline_add: "pipelines (pipeline_add hs F) = pipelines F @ [wraps hs]"
  by (simp add: pipeline_add_def case_prod_beta add_fst)

lemma decorators_pipeline_add [simp]:
  "userHandlerDecorators (pipeline_add hs F) = userHandlerDecorators F"
  by (simp add: pipeline_add_def case_prod_beta)

lemma registry_pipeline_add:
  "globalHandlersByName (pipeline_add hs F) =
     snd (add hs (length (pipelines F)) [] (globalHandlersByName F))"
  by (simp add: pipeline_add_def case_prod_beta)

lemma handlers_from_pipeline_add:
  "handlers_from (pipeline_add hs F) (length (pipelines F), i) = wraps (drop i hs)"
  by (simp add: handlers_from_def pipelines_pipeline_add drop_wraps)

lemma invoke_pipeline_add:
  "invoke (pipeline_add hs F) (Some (length (pipelines F), i)) =
     handler (wraps (drop i hs)) (globalHandlersByName (pipeline_add hs F))
       (userHandlerDecorators F)"
  by (rule ext, rule ext) (simp add: invoke_def handlers_from_pipeline_add)

subsection \<open>A chain of plain synchronous handlers\<close>

lemma handler_plain_sync:
  "list_all plain_sync (h # hs) \<Longrightarrow> stop_free h hs args s \<Longrightarrow>
   handler (wraps (h # hs)) reg [] args s = composition h hs args s"
proof (induction hs arbitrary: h args s)
  case Nil
  then show ?case
    by (simp add: plain_sync_def decoratedUserHandler_def call_user_def)
next
  case (Cons h' hs)
  have ps: "\<not> isFnAsync h" "\<not> meta_injectToolkit h" "\<not> isFnAsync h'" "\<not> list_ex isFnAsync hs"
    using Cons.prems(1) by (auto simp: plain_sync_def list_ex_iff list_all_iff)
  have tl: "list_all plain_sync (h' # hs)" using Cons.prems(1) by simp
  have ns: "field ''code'' (arg0 args) \<noteq> VStr stopPropagationExceptionCode"
    using Cons.prems(2) by simp
  show ?case
  proof (cases "body h args None s")
    case (Pair out s')
    show ?thesis
    proof (cases out)
      case (Return v)
      have sf: "stop_free h' hs [v] s'" using Cons.prems(2) Pair Return by simp
      have "handler (wraps (h # h' # hs)) reg [] args s = handler (wraps (h' # hs)) reg [] [v] s'"
        using ps ns Pair Return by (simp add: decoratedUserHandler_def call_user_def)
      also have "\<dots> = composition h' hs [v] s'" by (rule Cons.IH [OF tl sf])
      finally show ?thesis using Pair Return by simp
    next
      case (Throw e)
      then show ?thesis
        using ps ns Pair by (simp add: decoratedUserHandler_def call_user_def)
    qed
  qed
qed

subsection \<open>Marks and the registry\<close>

lemma list_ex_drop_nth:
  "k < length hs \<Longrightarrow> j \<le> k \<Longrightarrow> P (hs ! k) \<Longrightarrow> list_ex P (drop j hs)"
proof -
  assume k: "k < length hs" and j: "j \<le> k" and p: "P (hs ! k)"
  have "drop j hs ! (k - j) = hs ! k" using k j by simp
  moreover have "k - j < length (drop j hs)" using k j by simp
  ultimately have "hs ! k \<in> set (drop j hs)" by (metis nth_mem)
  then show ?thesis using p by (auto simp: list_ex_iff)
qed

lemma wraps_drop_Cons:
  "j < length hs \<Longrightarrow> wraps (drop j hs) =
     \<lparr>userHandler = hs ! j, isAsync = isFnAsync (hs ! j),
      shouldBeTreatAsAsync = list_ex isFnAsync (drop j hs)\<rparr> # wraps (drop (Suc j) hs)"
  by (simp add: Cons_nth_drop_Suc [symmetric])

text \<open>The two paths of the wrapper of a handler that has a successor.\<close>

lemma invoke_plain_awaited:
  assumes "Suc j < length hs" and "\<not> meta_injectToolkit (hs ! j)"
    and "list_ex isFnAsync (drop (Suc j) hs)"
    and "field ''code'' (arg0 args) \<noteq> VStr stopPropagationExceptionCode"
  shows "invoke (pipeline_add hs F) (Some (length (pipelines F), j)) args s =
          then_method
            (if isFnAsync (hs ! j)
             then decoratedUserHandler (userHandlerDecorators F) (hs ! j) None args None s
             else Promise_resolve
                    (decoratedUserHandler (userHandlerDecorators F) (hs ! j) None args None s))
            (invoke (pipeline_add hs F) (Some (length (pipelines F), Suc j)))"
proof -
  have jl: "j < length hs" using assms(1) by simp
  show ?thesis
    using assms(2-4)
    by (simp add: invoke_pipeline_add wraps_drop_Cons [OF jl] wraps_drop_Cons [OF assms(1)])
qed

lemma invoke_toolkit:
  assumes "Suc j < length hs" and "meta_injectToolkit (hs ! j)"
    and "field ''code'' (arg0 args) \<noteq> VStr stopPropagationExceptionCode"
  shows "invoke (pipeline_add hs F) (Some (length (pipelines F), j)) args s =
          decoratedUserHandler (userHandlerDecorators F) (hs ! j)
            (Some (successor_toolkit (pipeline_add hs F) (length (pipelines F), Suc j) args))
            args
            (Some (successor_toolkit (pipeline_add hs F) (length (pipelines F), Suc j) args)) s"
proof -
  have jl: "j < length hs" using assms(1) by simp
  show ?thesis
    using assms(2-3)
    by (simp add: invoke_pipeline_add wraps_drop_Cons [OF jl] wraps_drop_Cons [OF assms(1)]
        successor_toolkit_def Let_def)
qed

lemma add_snd_unnamed:
  "list_all (\<lambda>h. meta_name h \<noteq> Some n) hs \<Longrightarrow> snd (add hs p handlers reg) n = reg n"
  by (induction hs arbitrary: handlers reg)
     (auto simp: decorateHandler_def register_def split: option.splits)

lemma add_snd_last:
  "j < length hs \<Longrightarrow> meta_name (hs ! j) = Some n \<Longrightarrow> n \<noteq> [] \<Longrightarrow>
   list_all (\<lambda>h. meta_name h \<noteq> Some n) (drop (Suc j) hs) \<Longrightarrow>
   snd (add hs p handlers reg) n = Some (p, length handlers + j)"
proof (induction hs arbitrary: handlers reg j)
  case Nil
  then show ?case by simp
next
  case (Cons h hs)
  show ?case
  proof (cases j)
    case 0
    then show ?thesis
      using Cons.prems by (simp add: decorateHandler_def add_snd_unnamed register_def)
  next
    case (Suc j')
    then show ?thesis
      using Cons.prems Cons.IH [of j'] by (simp add: decorateHandler_def)
  qed
qed

section \<open>The claims\<close>

subsection \<open>C1: a chain of plain synchronous handlers and function composition\<close>

text \<open>
  C1 says that for every chain of N synchronous handlers without toolkit injection the
  handler returned by \<^verbatim>\<open>sequenceOf\<close> or \<^verbatim>\<open>entrySequenceOf\<close> returns the N-fold composition
  of the handlers. The engine does so only as long as no value fed forward carries the
  stop-propagation code: the wrapper that receives such a value returns its payload and
  runs neither its own handler nor a later one. Here the first handler returns
  \<^verbatim>\<open>stopPropagationWith(7)\<close>; the composition would hand that object to the second
  handler, the chain returns 7 and never runs the second handler.
\<close>

theorem stop_value_breaks_composition:
  "invoke (snd (sequenceOf [ex_stop ''h1'', ex_tag ''h2''] (daisugi [])))
          (fst (sequenceOf [ex_stop ''h1'', ex_tag ''h2''] (daisugi []))) [VNum 7] []
     = (Return (VNum 7), [''h1'']) \<and>
   composition (ex_stop ''h1'') [ex_tag ''h2''] [VNum 7] []
     = (Return (VArr [VStr ''h2'', stopPropagationWith (VNum 7)]), [''h1'', ''h2'']) \<and>
   call_entry 1 (snd (entrySequenceOf [ex_stop ''h1'', ex_tag ''h2''] (daisugi [])))
          (fst (entrySequenceOf [ex_stop ''h1'', ex_tag ''h2''] (daisugi []))) [VNum 7] []
     = Some (Return (VNum 7), [''h1''])"
  by code_simp

text \<open>
  C1, amended. For a chain of N \<open>\<ge>\<close> 1 synchronous handlers without toolkit injection, built
  in a factory without decorators, and an invocation in which neither the first argument
  nor a value returned by a handler that has a successor carries the stop-propagation
  code: the handler returned by \<^verbatim>\<open>sequenceOf\<close> returns or throws exactly what the composition
  \<open>h\<^sub>N(...h\<^sub>2(h\<^sub>1(args)))\<close> returns or throws, with the same effects; and so does the handler
  returned by \<^verbatim>\<open>entrySequenceOf\<close>, whenever the composition returns, or throws a value that
  is neither an abort or jump signal nor \<^verbatim>\<open>null\<close> or \<^verbatim>\<open>undefined\<close>.
\<close>

theorem sync_chain_is_composition:
  assumes "list_all plain_sync (h # hs)" and "userHandlerDecorators F = []"
    and "stop_free h hs args s"
  shows "invoke (snd (sequenceOf (h # hs) F)) (fst (sequenceOf (h # hs) F)) args s =
           composition h hs args s \<and>
         (passes_interpreter (fst (composition h hs args s)) \<longrightarrow>
          call_entry (Suc n) (snd (entrySequenceOf (h # hs) F))
              (fst (entrySequenceOf (h # hs) F)) args s =
            Some (composition h hs args s))"
proof -
  let ?F = "pipeline_add (h # hs) F"
  let ?r = "Some (length (pipelines F), 0::nat)"
  have inv: "invoke ?F ?r args s = composition h hs args s"
    using handler_plain_sync [OF assms(1) assms(3)] assms(2)
    by (simp add: invoke_pipeline_add)
  have flags: "\<not> isFnAsync h" "\<not> list_ex isFnAsync hs"
    using assms(1) by (auto simp: plain_sync_def list_ex_iff list_all_iff)
  have hf: "handlers_from ?F (length (pipelines F), 0) =
      \<lparr>userHandler = h, isAsync = False, shouldBeTreatAsAsync = False\<rparr> # wraps hs"
    using flags by (simp add: handlers_from_pipeline_add)
  have entry: "decorateWithExceptionCapture (Suc n) ?F ?r args s = Some (composition h hs args s)"
    if "passes_interpreter (fst (composition h hs args s))"
  proof (cases "composition h hs args s")
    case (Pair out s')
    show ?thesis
    proof (cases out)
      case (Return v)
      then show ?thesis using hf inv Pair by simp
    next
      case (Throw e)
      then have "\<not> nullish e" "\<not> is_signal e" using that Pair by simp_all
      then show ?thesis using hf inv Pair Throw by (simp add: captureException_other)
    qed
  qed
  show ?thesis
    using inv entry by (simp add: sequenceOf_def entrySequenceOf_def first_handler_def)
qed

text \<open>The amended C1 at a chain of two handlers: the second receives what the first returned.\<close>

theorem sync_chain_is_composition_witness:
  "list_all plain_sync [ex_tag ''h1'', ex_tag ''h2''] \<and>
   userHandlerDecorators (daisugi [] :: log factory) = [] \<and>
   stop_free (ex_tag ''h1'') [ex_tag ''h2''] [VNum 1] [] \<and>
   invoke (snd (sequenceOf [ex_tag ''h1'', ex_tag ''h2''] (daisugi [])))
          (fst (sequenceOf [ex_tag ''h1'', ex_tag ''h2''] (daisugi []))) [VNum 1] []
     = (Return (VArr [VStr ''h2'', VArr [VStr ''h1'', VNum 1]]), [''h1'', ''h2'']) \<and>
   call_entry 1 (snd (entrySequenceOf [ex_tag ''h1'', ex_tag ''h2''] (daisugi [])))
          (fst (entrySequenceOf [ex_tag ''h1'', ex_tag ''h2''] (daisugi []))) [VNum 1] []
     = Some (Return (VArr [VStr ''h2'', VArr [VStr ''h1'', VNum 1]]), [''h1'', ''h2''])"
proof -
  have a: "list_all plain_sync [ex_tag ''h1'', ex_tag ''h2'']" by code_simp
  have b: "userHandlerDecorators (daisugi [] :: log factory) = []" by (simp add: daisugi_def)
  have c: "stop_free (ex_tag ''h1'') [ex_tag ''h2''] [VNum 1] []" by code_simp
  have d: "composition (ex_tag ''h1'') [ex_tag ''h2''] [VNum 1] []
      = (Return (VArr [VStr ''h2'', VArr [VStr ''h1'', VNum 1]]), [''h1'', ''h2''])"
    by code_simp
  show ?thesis using sync_chain_is_composition [OF a b c, of 0] a b c d by simp
qed

subsection \<open>C2: what the entry wrapper does with control signals\<close>

text \<open>
  C2 says that the entry wrapper resolves each of the three control signals raised inside
  a chain, and that none ever reaches the caller of the entry point, whether the chain
  resolves synchronously or through a pending result. The entry wrapper chooses how to
  listen from \<^verbatim>\<open>__meta__\<close> alone: for a head that is neither async nor marked it catches what
  the call throws, and returns what the call returns as it is. In the first chain below
  the only handler is declared without \<^verbatim>\<open>async\<close> and aborts inside a promise callback; the
  wrapper returns its promise untouched, and the caller receives a promise rejected with
  the abort signal. The stop-propagation signal is a returned value, which only the
  wrapper of a successor interprets: in the second chain the only handler returns one,
  and the caller receives the signal object itself.
\<close>

theorem late_abort_reaches_caller:
  "call_entry 1 (snd (entrySequenceOf [ex_late_abort ''late''] (daisugi [])))
      (fst (entrySequenceOf [ex_late_abort ''late''] (daisugi []))) [VNum 9] []
     = Some (Return (VRejected (abortSignal (VNum 9))), [''late'']) \<and>
   call_entry 1 (snd (entrySequenceOf [ex_stop ''stop''] (daisugi [])))
      (fst (entrySequenceOf [ex_stop ''stop''] (daisugi []))) [VNum 9] []
     = Some (Return (stopPropagationWith (VNum 9)), [''stop''])"
  by code_simp

text \<open>
  C2, amended. The entry wrapper resolves the abort and jump signals that arrive the way
  it listens. For a head that is neither async nor marked treat-as-async: an abort signal
  thrown by the call becomes its result, the returned value; a jump signal thrown by the
  call becomes the invocation of the interpreter closure of its target on its arguments;
  a value the call returns, a rejected promise or a stop-propagation value included, is
  returned as it is. For a head
  that is async or marked: an abort signal that rejects the returned promise becomes a
  promise resolved with its result, and a jump signal that rejects it becomes the promise
  settled by the invocation of the target's interpreter closure.
\<close>

theorem interpreter_resolves_watched_signals:
  "(captures_throw F h \<longrightarrow>
      (invoke F (Some h) args s = (Throw (abortSignal R), s') \<longrightarrow>
         decorateWithExceptionCapture (Suc n) F (Some h) args s = Some (Return R, s')) \<and>
      (invoke F (Some h) args s = (Throw (jumpSignal reg name a), s') \<longrightarrow>
         decorateWithExceptionCapture (Suc n) F (Some h) args s =
           decorateWithExceptionCapture n F (reg name) a s') \<and>
      (invoke F (Some h) args s = (Return v, s') \<longrightarrow>
         decorateWithExceptionCapture (Suc n) F (Some h) args s = Some (Return v, s'))) \<and>
   (captures_rejection F h \<longrightarrow>
      (invoke F (Some h) args s = (Return (VRejected (abortSignal R)), s') \<longrightarrow>
         decorateWithExceptionCapture (Suc n) F (Some h) args s =
           Some (Return (promise_resolve R), s')) \<and>
      (invoke F (Some h) args s = (Return (VRejected (jumpSignal reg name a)), s') \<longrightarrow>
         decorateWithExceptionCapture (Suc n) F (Some h) args s =
           map_option (\<lambda>(out, t). (settle out, t))
             (decorateWithExceptionCapture n F (reg name) a s')))"
  by (auto simp: captures_throw_def captures_rejection_def promise_resolve_def
      split: option.splits list.splits)

text \<open>
  The amended C2 in the example factory: a synchronous abort, a synchronous jump, a
  rejected promise returned by a synchronous head, an async abort and an async jump.
\<close>

theorem interpreter_resolves_watched_signals_witness:
  "captures_throw ex_factory (1, 0) \<and>
   invoke ex_factory (Some (1, 0)) [VNum 1] [] = (Throw (abortSignal (VNum 1)), [''a'']) \<and>
   decorateWithExceptionCapture 1 ex_factory (Some (1, 0)) [VNum 1] []
     = Some (Return (VNum 1), [''a'']) \<and>
   captures_throw ex_factory (2, 0) \<and>
   invoke ex_factory (Some (2, 0)) [VNum 1] []
     = (Throw (jumpSignal (globalHandlersByName ex_factory) ''x'' [VNum 1]), [''j'']) \<and>
   decorateWithExceptionCapture 2 ex_factory (Some (2, 0)) [VNum 1] []
     = Some (Return (VArr [VStr ''target'', VNum 1]), [''j'', ''target'']) \<and>
   captures_throw ex_factory (5, 0) \<and>
   invoke ex_factory (Some (5, 0)) [VNum 1] []
     = (Return (VRejected (abortSignal (VNum 1))), [''late'']) \<and>
   decorateWithExceptionCapture 1 ex_factory (Some (5, 0)) [VNum 1] []
     = Some (Return (VRejected (abortSignal (VNum 1))), [''late'']) \<and>
   captures_rejection ex_factory (3, 0) \<and>
   invoke ex_factory (Some (3, 0)) [VNum 1] []
     = (Return (VRejected (abortSignal (VNum 1))), [''aa'']) \<and>
   decorateWithExceptionCapture 1 ex_factory (Some (3, 0)) [VNum 1] []
     = Some (Return (VResolved (VNum 1)), [''aa'']) \<and>
   captures_rejection ex_factory (4, 0) \<and>
   invoke ex_factory (Some (4, 0)) [VNum 1] []
     = (Return (VRejected (jumpSignal (globalHandlersByName ex_factory) ''x'' [VNum 1])),
        [''aj'']) \<and>
   decorateWithExceptionCapture 2 ex_factory (Some (4, 0)) [VNum 1] []
     = Some (Return (VResolved (VArr [VStr ''target'', VNum 1])), [''aj'', ''target''])"
proof -
  note main = interpreter_resolves_watched_signals
  have c1: "captures_throw ex_factory (1, 0)" by code_simp
  have i1: "invoke ex_factory (Some (1, 0)) [VNum 1] [] = (Throw (abortSignal (VNum 1)), [''a''])"
    by code_simp
  have r1: "decorateWithExceptionCapture 1 ex_factory (Some (1, 0)) [VNum 1] []
     = Some (Return (VNum 1), [''a''])"
    using main [of ex_factory "(1, 0)" "[VNum 1]" "[]" "VNum 1" "[''a'']" 0] c1 i1 by simp
  have c2: "captures_throw ex_factory (2, 0)" by code_simp
  have i2: "invoke ex_factory (Some (2, 0)) [VNum 1] []
     = (Throw (jumpSignal (globalHandlersByName ex_factory) ''x'' [VNum 1]), [''j''])"
    by code_simp
  have t2: "decorateWithExceptionCapture 1 ex_factory (globalHandlersByName ex_factory ''x'')
      [VNum 1] [''j''] = Some (Return (VArr [VStr ''target'', VNum 1]), [''j'', ''target''])"
    by code_simp
  have r2: "decorateWithExceptionCapture 2 ex_factory (Some (2, 0)) [VNum 1] []
     = Some (Return (VArr [VStr ''target'', VNum 1]), [''j'', ''target''])"
    using main [of ex_factory "(2, 0)" "[VNum 1]" "[]" _ "[''j'']" 1
        "globalHandlersByName ex_factory" "''x''" "[VNum 1]"] c2 i2 t2
    by (simp add: numeral_2_eq_2)
  have c5: "captures_throw ex_factory (5, 0)" by code_simp
  have i5: "invoke ex_factory (Some (5, 0)) [VNum 1] []
     = (Return (VRejected (abortSignal (VNum 1))), [''late''])"
    by code_simp
  have r5: "decorateWithExceptionCapture 1 ex_factory (Some (5, 0)) [VNum 1] []
     = Some (Return (VRejected (abortSignal (VNum 1))), [''late''])"
    using main [of ex_factory "(5, 0)" "[VNum 1]" "[]" _ "[''late'']" 0 _ _ _
        "VRejected (abortSignal (VNum 1))"] c5 i5 by simp
  have c3: "captures_rejection ex_factory (3, 0)" by code_simp
  have i3: "invoke ex_factory (Some (3, 0)) [VNum 1] []
     = (Return (VRejected (abortSignal (VNum 1))), [''aa''])"
    by code_simp
  have r3: "decorateWithExceptionCapture 1 ex_factory (Some (3, 0)) [VNum 1] []
     = Some (Return (VResolved (VNum 1)), [''aa''])"
    using main [of ex_factory "(3, 0)" "[VNum 1]" "[]" "VNum 1" "[''aa'']" 0] c3 i3
    by (simp add: promise_resolve_def)
  have c4: "captures_rejection ex_factory (4, 0)" by code_simp
  have i4: "invoke ex_factory (Some (4, 0)) [VNum 1] []
     = (Return (VRejected (jumpSignal (globalHandlersByName ex_factory) ''x'' [VNum 1])),
        [''aj''])"
    by code_simp
  have t4: "decorateWithExceptionCapture 1 ex_factory (globalHandlersByName ex_factory ''x'')
      [VNum 1] [''aj''] = Some (Return (VArr [VStr ''target'', VNum 1]), [''aj'', ''target''])"
    by code_simp
  have r4: "decorateWithExceptionCapture 2 ex_factory (Some (4, 0)) [VNum 1] []
     = Some (Return (VResolved (VArr [VStr ''target'', VNum 1])), [''aj'', ''target''])"
    using main [of ex_factory "(4, 0)" "[VNum 1]" "[]" _ "[''aj'']" 1
        "globalHandlersByName ex_factory" "''x''" "[VNum 1]"] c4 i4 t4
    by (simp add: numeral_2_eq_2 promise_resolve_def)
  show ?thesis using c1 i1 r1 c2 i2 r2 c5 i5 r5 c3 i3 r3 c4 i4 r4 by blast
qed

subsection \<open>C3: async contagion\<close>

text \<open>
  C3 says that every handler before an async handler carries the treat-as-async mark, and
  that its result is therefore awaited before its successor runs. The mark is set as
  stated, but a wrapper awaits only on the path of a handler without the toolkit. Here
  the first handler has the toolkit injected and the second is async: the first carries
  the mark, yet its successor runs inside it (the log has \<^verbatim>\<open>a\<close> before \<^verbatim>\<open>t\<close>), and its result
  is returned as it is, not as a promise with the successor chained to it.
\<close>

theorem toolkit_handler_not_awaited:
  "isFnAsync ([ex_around ''t'', ex_async_tag ''a''] ! 1) \<and>
   \<not> isFnAsync ([ex_around ''t'', ex_async_tag ''a''] ! 0) \<and>
   shouldBeTreatAsAsync
     (pipelines (pipeline_add [ex_around ''t'', ex_async_tag ''a''] (daisugi [])) ! 0 ! 0) \<and>
   invoke (pipeline_add [ex_around ''t'', ex_async_tag ''a''] (daisugi [])) (Some (0, 0))
       [VNum 1] []
     = (Return (VArr [VStr ''t'', VNum 1]), [''a'', ''t''])"
  by code_simp

text \<open>
  C3, amended. After a pipeline is built, if the handler at position k of the chain is
  classified asynchronous, then every handler at a position j < k of the same chain
  carries the treat-as-async mark. At an invocation whose first argument does not carry
  the stop-propagation code, a handler at such a position that does not request the
  toolkit has its result awaited before the successor runs: the wrapper returns the
  promise of its result (of \<^verbatim>\<open>Promise.resolve\<close> of its result, when it is synchronous) with
  the successor chained by \<^verbatim>\<open>then\<close>. A handler at such a position that requests the toolkit
  is not awaited: the wrapper returns what the handler returns or throws, as it is, and
  the successor is run only by the handler, through \<^verbatim>\<open>nextWith\<close> or \<^verbatim>\<open>next\<close> of its toolkit.
\<close>

theorem async_contagion:
  "k < length hs \<and> isFnAsync (hs ! k) \<and> j < k \<longrightarrow>
     shouldBeTreatAsAsync (pipelines (pipeline_add hs F) ! length (pipelines F) ! j) \<and>
     (\<not> meta_injectToolkit (hs ! j) \<and>
      field ''code'' (arg0 args) \<noteq> VStr stopPropagationExceptionCode \<longrightarrow>
        invoke (pipeline_add hs F) (Some (length (pipelines F), j)) args s =
          then_method
            (if isFnAsync (hs ! j)
             then decoratedUserHandler (userHandlerDecorators F) (hs ! j) None args None s
             else Promise_resolve
                    (decoratedUserHandler (userHandlerDecorators F) (hs ! j) None args None s))
            (invoke (pipeline_add hs F) (Some (length (pipelines F), Suc j)))) \<and>
     (meta_injectToolkit (hs ! j) \<and>
      field ''code'' (arg0 args) \<noteq> VStr stopPropagationExceptionCode \<longrightarrow>
        invoke (pipeline_add hs F) (Some (length (pipelines F), j)) args s =
          decoratedUserHandler (userHandlerDecorators F) (hs ! j)
            (Some (successor_toolkit (pipeline_add hs F) (length (pipelines F), Suc j) args))
            args
            (Some (successor_toolkit (pipeline_add hs F) (length (pipelines F), Suc j) args)) s \<and>
        nextWith (successor_toolkit (pipeline_add hs F) (length (pipelines F), Suc j) args) =
          invoke (pipeline_add hs F) (Some (length (pipelines F), Suc j)) \<and>
        tk_next (successor_toolkit (pipeline_add hs F) (length (pipelines F), Suc j) args) =
          invoke (pipeline_add hs F) (Some (length (pipelines F), Suc j)) args)"
proof (intro impI, elim conjE)
  assume k: "k < length hs" and a: "isFnAsync (hs ! k)" and j: "j < k"
  have jl: "j < length hs" and sjl: "Suc j < length hs" using k j by simp_all
  have ex1: "list_ex isFnAsync (drop j hs)"
    using list_ex_drop_nth [of k hs j isFnAsync] k a j by simp
  have ex2: "list_ex isFnAsync (drop (Suc j) hs)"
    using list_ex_drop_nth [of k hs "Suc j" isFnAsync] k a j by simp
  have mark: "shouldBeTreatAsAsync (pipelines (pipeline_add hs F) ! length (pipelines F) ! j)"
    using jl ex1 by (simp add: pipelines_pipeline_add wraps_nth)
  have tk: "nextWith (successor_toolkit (pipeline_add hs F) (length (pipelines F), Suc j) args) =
          invoke (pipeline_add hs F) (Some (length (pipelines F), Suc j))"
    "tk_next (successor_toolkit (pipeline_add hs F) (length (pipelines F), Suc j) args) =
          invoke (pipeline_add hs F) (Some (length (pipelines F), Suc j)) args"
    by (simp_all add: successor_toolkit_def make_toolkit_def)
  show "shouldBeTreatAsAsync (pipelines (pipeline_add hs F) ! length (pipelines F) ! j) \<and>
     (\<not> meta_injectToolkit (hs ! j) \<and>
      field ''code'' (arg0 args) \<noteq> VStr stopPropagationExceptionCode \<longrightarrow>
        invoke (pipeline_add hs F) (Some (length (pipelines F), j)) args s =
          then_method
            (if isFnAsync (hs ! j)
             then decoratedUserHandler (userHandlerDecorators F) (hs ! j) None args None s
             else Promise_resolve
                    (decoratedUserHandler (userHandlerDecorators F) (hs ! j) None args None s))
            (invoke (pipeline_add hs F) (Some (length (pipelines F), Suc j)))) \<and>
     (meta_injectToolkit (hs ! j) \<and>
      field ''code'' (arg0 args) \<noteq> VStr stopPropagationExceptionCode \<longrightarrow>
        invoke (pipeline_add hs F) (Some (length (pipelines F), j)) args s =
          decoratedUserHandler (userHandlerDecorators F) (hs ! j)
            (Some (successor_toolkit (pipeline_add hs F) (length (pipelines F), Suc j) args))
            args
            (Some (successor_toolkit (pipeline_add hs F) (length (pipelines F), Suc j) args)) s \<and>
        nextWith (successor_toolkit (pipeline_add hs F) (length (pipelines F), Suc j) args) =
          invoke (pipeline_add hs F) (Some (length (pipelines F), Suc j)) \<and>
        tk_next (successor_toolkit (pipeline_add hs F) (length (pipelines F), Suc j) args) =
          invoke (pipeline_add hs F) (Some (length (pipelines F), Suc j)) args)"
    using mark tk invoke_plain_awaited [OF sjl _ ex2, of args F s]
      invoke_toolkit [OF sjl, of args F s]
    by blast
qed

text \<open>
  The amended C3 at a synchronous handler followed by an async one, without and with the
  toolkit: both carry the mark; the first chain returns a promise, settled after both
  handlers have run in order, the second returns the value of its first handler.
\<close>

theorem async_contagion_witness:
  "Suc 0 < length [ex_tag ''h1'', ex_async_tag ''h2''] \<and>
   isFnAsync ([ex_tag ''h1'', ex_async_tag ''h2''] ! Suc 0) \<and>
   \<not> isFnAsync ([ex_tag ''h1'', ex_async_tag ''h2''] ! 0) \<and>
   \<not> meta_injectToolkit ([ex_tag ''h1'', ex_async_tag ''h2''] ! 0) \<and>
   shouldBeTreatAsAsync
     (pipelines (pipeline_add [ex_tag ''h1'', ex_async_tag ''h2''] (daisugi [])) ! 0 ! 0) \<and>
   invoke (pipeline_add [ex_tag ''h1'', ex_async_tag ''h2''] (daisugi [])) (Some (0, 0)) [VNum 1] []
     = (Return (VResolved (VArr [VStr ''h2'', VArr [VStr ''h1'', VNum 1]])), [''h1'', ''h2'']) \<and>
   isFnAsync ([ex_around ''t'', ex_async_tag ''a''] ! Suc 0) \<and>
   meta_injectToolkit ([ex_around ''t'', ex_async_tag ''a''] ! 0) \<and>
   shouldBeTreatAsAsync
     (pipelines (pipeline_add [ex_around ''t'', ex_async_tag ''a''] (daisugi [])) ! 0 ! 0) \<and>
   invoke (pipeline_add [ex_around ''t'', ex_async_tag ''a''] (daisugi [])) (Some (0, 0)) [VNum 2] []
     = (Return (VArr [VStr ''t'', VNum 2]), [''a'', ''t''])"
proof -
  let ?hs = "[ex_tag ''h1'', ex_async_tag ''h2'']"
  let ?ts = "[ex_around ''t'', ex_async_tag ''a'']"
  let ?F = "daisugi [] :: log factory"
  have a: "Suc 0 < length ?hs" by simp
  have b: "isFnAsync (?hs ! Suc 0)" by code_simp
  have c: "\<not> isFnAsync (?hs ! 0)" by code_simp
  have d: "\<not> meta_injectToolkit (?hs ! 0)" by code_simp
  have e: "field ''code'' (arg0 [VNum 1]) \<noteq> VStr stopPropagationExceptionCode" by simp
  have g: "length (pipelines ?F) = 0" by (simp add: daisugi_def)
  have n: "then_method
            (Promise_resolve
              (decoratedUserHandler (userHandlerDecorators ?F) (?hs ! 0) None [VNum 1] None []))
            (invoke (pipeline_add ?hs ?F) (Some (0, Suc 0)))
     = (Return (VResolved (VArr [VStr ''h2'', VArr [VStr ''h1'', VNum 1]])), [''h1'', ''h2''])"
    by code_simp
  note inst = async_contagion [where hs = ?hs and k = "Suc 0" and j = 0 and F = ?F
      and args = "[VNum 1]" and s = "[]"]
  have m: "shouldBeTreatAsAsync (pipelines (pipeline_add ?hs ?F) ! 0 ! 0)"
    using inst a b g by simp
  have i: "invoke (pipeline_add ?hs ?F) (Some (0, 0)) [VNum 1] []
      = then_method
            (Promise_resolve
              (decoratedUserHandler (userHandlerDecorators ?F) (?hs ! 0) None [VNum 1] None []))
            (invoke (pipeline_add ?hs ?F) (Some (0, Suc 0)))"
    using inst a b c d e g by simp
  have ta: "Suc 0 < length ?ts" by simp
  have tb: "isFnAsync (?ts ! Suc 0)" by code_simp
  have td: "meta_injectToolkit (?ts ! 0)" by code_simp
  have te: "field ''code'' (arg0 [VNum 2]) \<noteq> VStr stopPropagationExceptionCode" by simp
  have tn: "decoratedUserHandler (userHandlerDecorators ?F) (?ts ! 0)
            (Some (successor_toolkit (pipeline_add ?ts ?F) (0, Suc 0) [VNum 2]))
            [VNum 2]
            (Some (successor_toolkit (pipeline_add ?ts ?F) (0, Suc 0) [VNum 2])) []
     = (Return (VArr [VStr ''t'', VNum 2]), [''a'', ''t''])"
    by code_simp
  note tinst = async_contagion [where hs = ?ts and k = "Suc 0" and j = 0 and F = ?F
      and args = "[VNum 2]" and s = "[]"]
  have tm: "shouldBeTreatAsAsync (pipelines (pipeline_add ?ts ?F) ! 0 ! 0)"
    using tinst ta tb g by simp
  have ti: "invoke (pipeline_add ?ts ?F) (Some (0, 0)) [VNum 2] []
      = decoratedUserHandler (userHandlerDecorators ?F) (?ts ! 0)
            (Some (successor_toolkit (pipeline_add ?ts ?F) (0, Suc 0) [VNum 2]))
            [VNum 2]
            (Some (successor_toolkit (pipeline_add ?ts ?F) (0, Suc 0) [VNum 2])) []"
    using tinst ta tb td te g by simp
  show ?thesis using a b c d m i n tb td tm ti tn by simp
qed

subsection \<open>C4: abort\<close>

text \<open>
  C4 says that when handler k calls \<^verbatim>\<open>abortWith(R)\<close> the entry point resolves to \<open>R\<close> and no
  later handler is invoked. In the first chain below a synchronous handler aborts and an
  async handler follows it: the head is marked treat-as-async, so the entry wrapper
  evaluates \<^verbatim>\<open>Promise.resolve(handler(...args)).catch(captureException)\<close>, and the abort signal,
  thrown while the argument of \<^verbatim>\<open>Promise.resolve\<close> is evaluated, leaves the wrapper as a
  thrown value. The two sibling branches of the wrapper do resolve it: the same abort in
  a chain without an async handler returns \<open>R\<close>, and in a chain whose aborting handler is
  async it gives a promise resolved with \<open>R\<close>. In all three the later handler is not run.
\<close>

theorem abort_before_async_escapes:
  "call_entry 1 (snd (entrySequenceOf [ex_abort ''h1'', ex_async_tag ''h2''] (daisugi [])))
      (fst (entrySequenceOf [ex_abort ''h1'', ex_async_tag ''h2''] (daisugi []))) [VNum 1] []
     = Some (Throw (abortSignal (VNum 1)), [''h1'']) \<and>
   call_entry 1 (snd (entrySequenceOf [ex_abort ''h1'', ex_tag ''h2''] (daisugi [])))
      (fst (entrySequenceOf [ex_abort ''h1'', ex_tag ''h2''] (daisugi []))) [VNum 1] []
     = Some (Return (VNum 1), [''h1'']) \<and>
   call_entry 1 (snd (entrySequenceOf [ex_async_abort ''h1'', ex_async_tag ''h2''] (daisugi [])))
      (fst (entrySequenceOf [ex_async_abort ''h1'', ex_async_tag ''h2''] (daisugi []))) [VNum 1] []
     = Some (Return (VResolved (VNum 1)), [''h1''])"
  by code_simp

subsection \<open>C5: jump to a registered handler\<close>

text \<open>
  C5 says that when handler k calls \<^verbatim>\<open>jumpTo("x", A)\<close> and \<^verbatim>\<open>x\<close> is registered, the entry point
  resolves to the result of the registered handler on \<open>A\<close>, and the rest of the chain is
  bypassed. In the first chain below a synchronous handler jumps and an async handler
  follows it: as for the abort, the jump signal is thrown while the argument of
  \<^verbatim>\<open>Promise.resolve\<close> is evaluated and leaves the entry wrapper as a thrown value; the target
  is never run. The same jump in a chain without an async handler resolves to the result
  of the target.
\<close>

theorem jump_before_async_escapes:
  "call_entry 2
      (snd (entrySequenceOf [ex_jump ''h1'' ''x'', ex_async_tag ''h2'']
              (snd (sequenceOf [ex_named ''x'' ''target''] (daisugi [])))))
      (fst (entrySequenceOf [ex_jump ''h1'' ''x'', ex_async_tag ''h2'']
              (snd (sequenceOf [ex_named ''x'' ''target''] (daisugi []))))) [VNum 1] []
     = Some (Throw (VObj [(''code'', VStr ''DAISUGI:JUMP''), (''handler'', VCapture (Some (0, 0))),
                          (''args'', VArr [VNum 1])]), [''h1'']) \<and>
   call_entry 2
      (snd (entrySequenceOf [ex_jump ''h1'' ''x'', ex_tag ''h2'']
              (snd (sequenceOf [ex_named ''x'' ''target''] (daisugi [])))))
      (fst (entrySequenceOf [ex_jump ''h1'' ''x'', ex_tag ''h2'']
              (snd (sequenceOf [ex_named ''x'' ''target''] (daisugi []))))) [VNum 1] []
     = Some (Return (VArr [VStr ''target'', VNum 1]), [''h1'', ''target''])"
  by code_simp

subsection \<open>C6: jump to a name that is not registered\<close>

text \<open>
  C6 says that \<^verbatim>\<open>jumpTo("missing", A)\<close> raises a genuine error, which the entry wrapper does
  not interpret as a control signal and which reaches the caller unchanged. \<^verbatim>\<open>jumpTo\<close> does not
  look at what the registry returns: it throws the same jump signal as for a registered
  name, with the interpreter closure of \<^verbatim>\<open>undefined\<close> as target. The entry wrapper interprets
  that signal as a jump, and what the caller receives is the \<^verbatim>\<open>TypeError\<close> raised when the
  target is invoked, not the value that \<^verbatim>\<open>jumpTo\<close> threw.
\<close>

theorem missing_jump_is_a_jump_signal:
  "invoke ex_factory_missing (Some (0, 0)) [VNum 1] []
     = (Throw (VObj [(''code'', VStr ''DAISUGI:JUMP''), (''handler'', VCapture None),
                     (''args'', VArr [VNum 1])]), [''j'']) \<and>
   is_signal (VObj [(''code'', VStr ''DAISUGI:JUMP''), (''handler'', VCapture None),
                    (''args'', VArr [VNum 1])]) \<and>
   decorateWithExceptionCapture 2 ex_factory_missing (Some (0, 0)) [VNum 1] []
     = Some (Throw VTypeError, [''j''])"
  by code_simp

text \<open>
  C6, amended. \<^verbatim>\<open>jumpTo("missing", A)\<close>, where no handler is registered as \<^verbatim>\<open>missing\<close>, throws
  a jump signal, which the entry wrapper interprets as a control signal. When the signal
  arrives the way the wrapper listens (thrown by the call of a head that is neither async
  nor marked, or rejecting the promise returned by a head that is async or marked),
  invoking its target raises a \<^verbatim>\<open>TypeError\<close>, and that error reaches the caller of the entry
  point: thrown in the first case, as the rejection of the returned promise in the second.
\<close>

theorem missing_jump_target:
  assumes "globalHandlersByName F name = None"
  shows
   "jumpTo (make_toolkit nextHandler (globalHandlersByName F) args') name a =
      Throw (jumpSignal (globalHandlersByName F) name a) \<and>
    is_signal (jumpSignal (globalHandlersByName F) name a) \<and>
    (captures_throw F h \<and>
     invoke F (Some h) args s = (Throw (jumpSignal (globalHandlersByName F) name a), s') \<longrightarrow>
       decorateWithExceptionCapture (Suc (Suc n)) F (Some h) args s = Some (Throw VTypeError, s')) \<and>
    (captures_rejection F h \<and>
     invoke F (Some h) args s =
       (Return (VRejected (jumpSignal (globalHandlersByName F) name a)), s') \<longrightarrow>
       decorateWithExceptionCapture (Suc (Suc n)) F (Some h) args s =
         Some (Return (VRejected VTypeError), s'))"
  using assms
  by (auto simp: captures_throw_def captures_rejection_def make_toolkit_def is_signal_def
      promise_resolve_def split: option.splits list.splits)

text \<open>The amended C6 at a synchronous and at an async handler that jump to \<^verbatim>\<open>missing\<close>.\<close>

theorem missing_jump_target_witness:
  "globalHandlersByName ex_factory_missing ''missing'' = None \<and>
   captures_throw ex_factory_missing (0, 0) \<and>
   invoke ex_factory_missing (Some (0, 0)) [VNum 1] []
     = (Throw (jumpSignal (globalHandlersByName ex_factory_missing) ''missing'' [VNum 1]), [''j'']) \<and>
   decorateWithExceptionCapture (Suc (Suc 0)) ex_factory_missing (Some (0, 0)) [VNum 1] []
     = Some (Throw VTypeError, [''j'']) \<and>
   captures_rejection ex_factory_missing (1, 0) \<and>
   invoke ex_factory_missing (Some (1, 0)) [VNum 1] []
     = (Return (VRejected (jumpSignal (globalHandlersByName ex_factory_missing) ''missing'' [VNum 1])),
        [''aj'']) \<and>
   decorateWithExceptionCapture (Suc (Suc 0)) ex_factory_missing (Some (1, 0)) [VNum 1] []
     = Some (Return (VRejected VTypeError), [''aj''])"
proof -
  have m: "globalHandlersByName ex_factory_missing ''missing'' = None" by code_simp
  have c0: "captures_throw ex_factory_missing (0, 0)" by code_simp
  have i0: "invoke ex_factory_missing (Some (0, 0)) [VNum 1] []
     = (Throw (jumpSignal (globalHandlersByName ex_factory_missing) ''missing'' [VNum 1]), [''j''])"
    by code_simp
  have c1: "captures_rejection ex_factory_missing (1, 0)" by code_simp
  have i1: "invoke ex_factory_missing (Some (1, 0)) [VNum 1] []
     = (Return (VRejected (jumpSignal (globalHandlersByName ex_factory_missing) ''missing'' [VNum 1])),
        [''aj''])"
    by code_simp
  have r0: "decorateWithExceptionCapture (Suc (Suc 0)) ex_factory_missing (Some (0, 0)) [VNum 1] []
     = Some (Throw VTypeError, [''j''])"
    using missing_jump_target [OF m, where nextHandler = None and args' = "[]" and a = "[VNum 1]"
        and h = "(0, 0)" and args = "[VNum 1]" and s = "[]" and s' = "[''j'']" and n = 0] c0 i0
    by blast
  have r1: "decorateWithExceptionCapture (Suc (Suc 0)) ex_factory_missing (Some (1, 0)) [VNum 1] []
     = Some (Return (VRejected VTypeError), [''aj''])"
    using missing_jump_target [OF m, where nextHandler = None and args' = "[]" and a = "[VNum 1]"
        and h = "(1, 0)" and args = "[VNum 1]" and s = "[]" and s' = "[''aj'']" and n = 0] c1 i1
    by blast
  show ?thesis using m c0 i0 r0 c1 i1 r1 by blast
qed

subsection \<open>C7: stop-propagation\<close>

text \<open>
  C7 says that a wrapped handler whose first argument is a stop-propagation value returns
  its payload without running the user handler, and that a handler returning
  \<^verbatim>\<open>stopPropagationWith(R)\<close> therefore makes the rest of its chain resolve to \<open>R\<close>. The first
  half holds for every wrapped handler. The second holds only where a wrapper reads the
  returned value as its first argument: the value returned by the last handler of a
  chain, and the value returned by a handler with the toolkit injected, are handed back
  unread. In the first chain below the last handler returns a stop value, and the chain,
  also through the entry wrapper, returns the signal object; in the second a handler with
  the toolkit returns one, its successor is not run, and the chain returns the signal
  object.
\<close>

theorem stop_value_returned_unread:
  "invoke (pipeline_add [ex_tag ''h1'', ex_stop ''h2''] (daisugi [])) (Some (0, 0)) [VNum 3] []
     = (Return (stopPropagationWith (VArr [VStr ''h1'', VNum 3])), [''h1'', ''h2'']) \<and>
   call_entry 1 (snd (entrySequenceOf [ex_tag ''h1'', ex_stop ''h2''] (daisugi [])))
      (fst (entrySequenceOf [ex_tag ''h1'', ex_stop ''h2''] (daisugi []))) [VNum 3] []
     = Some (Return (stopPropagationWith (VArr [VStr ''h1'', VNum 3])), [''h1'', ''h2'']) \<and>
   invoke (pipeline_add [ex_toolkit_stop ''t'', ex_tag ''h''] (daisugi [])) (Some (0, 0)) [VNum 3] []
     = (Return (stopPropagationWith (VNum 3)), [''t''])"
  by code_simp

text \<open>
  C7, amended. Every wrapped handler, whatever its kind, its successors and the
  decorators, when its first argument is a value made by \<^verbatim>\<open>stopPropagationWith(R)\<close>, returns
  \<open>R\<close> at once, and the user handler does not run (the state is unchanged). So in a factory
  without decorators, at a call whose first argument does not carry the stop-propagation
  code: when a handler without the toolkit that has a successor returns
  \<^verbatim>\<open>stopPropagationWith(R)\<close>, the chain from that handler on yields \<open>R\<close>, returned as it is, or
  as the promise resolved with it when the handler is async or the successor is marked,
  and nothing is thrown, so no interpreter of abort and jump signals is involved (the
  wrapper's \<^verbatim>\<open>isAsync\<close> being that of its handler, as \<^const>\<open>add\<close> sets it); when
  the handler is the last of its chain, or has the toolkit injected, the chain from it on
  yields the signal object itself (the promise resolved with it, for an async handler).
\<close>

theorem stop_propagation_short_circuit:
  "handler (w # rest) reg ds (stopPropagationWith R # args) s = (Return R, s) \<and>
   (\<not> meta_injectToolkit (userHandler w) \<and> isAsync w = isFnAsync (userHandler w) \<and>
    field ''code'' (arg0 args') \<noteq> VStr stopPropagationExceptionCode \<and>
    body (userHandler w) args' None s = (Return (stopPropagationWith R), s') \<longrightarrow>
    handler (w # nextHandler # rest') reg [] args' s =
      (if isAsync w \<or> shouldBeTreatAsAsync nextHandler
       then Return (promise_resolve R) else Return R, s')) \<and>
   (\<not> meta_injectToolkit (userHandler w) \<and>
    field ''code'' (arg0 args') \<noteq> VStr stopPropagationExceptionCode \<and>
    body (userHandler w) args' None s = (Return (stopPropagationWith R), s') \<longrightarrow>
    handler [w] reg [] args' s =
      (Return (if isFnAsync (userHandler w) then VResolved (stopPropagationWith R)
               else stopPropagationWith R), s')) \<and>
   (meta_injectToolkit (userHandler w) \<and>
    field ''code'' (arg0 args') \<noteq> VStr stopPropagationExceptionCode \<and>
    body (userHandler w) args'
      (Some (make_toolkit (if rest = [] then None else Some (handler rest reg [])) reg args')) s
      = (Return (stopPropagationWith R), s') \<longrightarrow>
    handler (w # rest) reg [] args' s =
      (Return (if isFnAsync (userHandler w) then VResolved (stopPropagationWith R)
               else stopPropagationWith R), s'))"
  by (auto simp: decoratedUserHandler_def call_user_def promise_resolve_def stopPropagationWith_def
      Let_def)

text \<open>
  The amended C7 at a handler called with a stop value, and at chains in which a handler
  returns one: with a successor, as last handler, and with the toolkit injected.
\<close>

theorem stop_propagation_short_circuit_witness:
  "handler [\<lparr>userHandler = ex_tag ''h'', isAsync = False, shouldBeTreatAsAsync = False\<rparr>]
      Map.empty [] [stopPropagationWith (VNum 3), VNum 4] [] = (Return (VNum 3), []) \<and>
   \<not> meta_injectToolkit (ex_stop ''r'') \<and> \<not> isFnAsync (ex_stop ''r'') \<and>
   field ''code'' (arg0 [VNum 3]) \<noteq> VStr stopPropagationExceptionCode \<and>
   body (ex_stop ''r'') [VNum 3] None [] = (Return (stopPropagationWith (VNum 3)), [''r'']) \<and>
   handler [\<lparr>userHandler = ex_stop ''r'', isAsync = False, shouldBeTreatAsAsync = False\<rparr>,
            \<lparr>userHandler = ex_tag ''h'', isAsync = False, shouldBeTreatAsAsync = False\<rparr>]
      Map.empty [] [VNum 3] [] = (Return (VNum 3), [''r'']) \<and>
   handler [\<lparr>userHandler = ex_stop ''r'', isAsync = False, shouldBeTreatAsAsync = False\<rparr>]
      Map.empty [] [VNum 3] [] = (Return (stopPropagationWith (VNum 3)), [''r'']) \<and>
   meta_injectToolkit (ex_toolkit_stop ''t'') \<and> \<not> isFnAsync (ex_toolkit_stop ''t'') \<and>
   handler [\<lparr>userHandler = ex_toolkit_stop ''t'', isAsync = False, shouldBeTreatAsAsync = False\<rparr>,
            \<lparr>userHandler = ex_tag ''h'', isAsync = False, shouldBeTreatAsAsync = False\<rparr>]
      Map.empty [] [VNum 3] [] = (Return (stopPropagationWith (VNum 3)), [''t''])"
proof -
  let ?h = "\<lparr>userHandler = ex_tag ''h'', isAsync = False, shouldBeTreatAsAsync = False\<rparr>"
  let ?r = "\<lparr>userHandler = ex_stop ''r'', isAsync = False, shouldBeTreatAsAsync = False\<rparr>"
  let ?t = "\<lparr>userHandler = ex_toolkit_stop ''t'', isAsync = False, shouldBeTreatAsAsync = False\<rparr>"
  have a: "\<not> meta_injectToolkit (ex_stop ''r'')" "\<not> isFnAsync (ex_stop ''r'')"
    by (simp_all add: ex_stop_def isFnAsync_def)
  have b: "field ''code'' (arg0 [VNum 3]) \<noteq> VStr stopPropagationExceptionCode" by simp
  have c: "body (ex_stop ''r'') [VNum 3] None [] = (Return (stopPropagationWith (VNum 3)), [''r''])"
    by (simp add: ex_stop_def)
  have ta: "meta_injectToolkit (ex_toolkit_stop ''t'')" "\<not> isFnAsync (ex_toolkit_stop ''t'')"
    by (simp_all add: ex_toolkit_stop_def ex_stop_def isFnAsync_def)
  have tc: "body (ex_toolkit_stop ''t'') [VNum 3]
      (Some (make_toolkit (if [?h] = [] then None else Some (handler [?h] Map.empty []))
               Map.empty [VNum 3])) []
      = (Return (stopPropagationWith (VNum 3)), [''t''])"
    by (simp add: ex_toolkit_stop_def ex_stop_def)
  have one: "handler [?h] Map.empty [] [stopPropagationWith (VNum 3), VNum 4] []
      = (Return (VNum 3), [])"
    using stop_propagation_short_circuit [where w = ?h and rest = "[]" and reg = Map.empty and ds = "[]" and R = "VNum 3"
        and args = "[VNum 4]" and s = "[]", THEN conjunct1]
    by simp
  have two: "handler [?r, ?h] Map.empty [] [VNum 3] [] = (Return (VNum 3), [''r''])"
    using stop_propagation_short_circuit [where w = ?r and nextHandler = ?h and rest' = "[]" and reg = Map.empty
        and R = "VNum 3" and args' = "[VNum 3]" and s = "[]" and s' = "[''r'']",
        THEN conjunct2, THEN conjunct1] a b c
    by simp
  have three: "handler [?r] Map.empty [] [VNum 3] [] = (Return (stopPropagationWith (VNum 3)), [''r''])"
    using stop_propagation_short_circuit [where w = ?r and reg = Map.empty and R = "VNum 3" and args' = "[VNum 3]"
        and s = "[]" and s' = "[''r'']", THEN conjunct2, THEN conjunct2, THEN conjunct1] a b c
    by simp
  have four: "handler [?t, ?h] Map.empty [] [VNum 3] [] = (Return (stopPropagationWith (VNum 3)), [''t''])"
    using stop_propagation_short_circuit [where w = ?t and rest = "[?h]" and reg = Map.empty and R = "VNum 3"
        and args' = "[VNum 3]" and s = "[]" and s' = "[''t'']",
        THEN conjunct2, THEN conjunct2, THEN conjunct2] ta b tc
    by simp
  show ?thesis using a b c ta one two three four by simp
qed

subsection \<open>C8: the registry of a factory\<close>

text \<open>
  C8. The registry belongs to the factory and every pipeline built from it writes to it and
  reads from it: building a pipeline leaves the entry of every name it does not register
  as it was, and for a non-empty name that it registers, the entry is afterwards the last
  handler of the pipeline with that name, whatever was registered under the name before,
  in this pipeline or in an earlier one. Every \<^verbatim>\<open>jumpTo\<close> of the name from then on throws a
  jump signal whose target is that handler, and the interpreter runs that handler.
\<close>

theorem last_registration_wins:
  "(list_all (\<lambda>h. meta_name h \<noteq> Some n) hs \<longrightarrow>
      globalHandlersByName (pipeline_add hs F) n = globalHandlersByName F n) \<and>
   (j < length hs \<and> meta_name (hs ! j) = Some n \<and> n \<noteq> [] \<and>
    list_all (\<lambda>h. meta_name h \<noteq> Some n) (drop (Suc j) hs) \<longrightarrow>
      globalHandlersByName (pipeline_add hs F) n = Some (length (pipelines F), j) \<and>
      jumpTo (make_toolkit nextHandler (globalHandlersByName (pipeline_add hs F)) args) n a =
        Throw (VObj [(''code'', VStr jumpExceptionCode),
                     (''handler'', VCapture (Some (length (pipelines F), j))),
                     (''args'', VArr a)]) \<and>
      captureException capture (jumpSignal (globalHandlersByName (pipeline_add hs F)) n a) s =
        capture (Some (length (pipelines F), j)) a s)"
  using add_snd_last [of j hs n "length (pipelines F)" "[]" "globalHandlersByName F"]
  by (simp add: registry_pipeline_add add_snd_unnamed make_toolkit_def jumpSignal_def
      captureException_def)

text \<open>
  C8 in a factory where \<^verbatim>\<open>x\<close> is registered three times, once in a first pipeline and twice in
  a second one: a jump to \<^verbatim>\<open>x\<close> from a third pipeline runs the last of them, and \<^verbatim>\<open>y\<close>,
  registered in the first pipeline, is still there.
\<close>

theorem last_registration_wins_witness:
  "globalHandlersByName
     (pipeline_add [ex_named ''y'' ''other'', ex_named ''x'' ''old''] (daisugi [])) ''x''
     = Some (0, 1) \<and>
   list_all (\<lambda>h. meta_name h \<noteq> Some ''y'') [ex_named ''x'' ''mid'', ex_named ''x'' ''new''] \<and>
   globalHandlersByName
     (pipeline_add [ex_named ''x'' ''mid'', ex_named ''x'' ''new'']
        (pipeline_add [ex_named ''y'' ''other'', ex_named ''x'' ''old''] (daisugi []))) ''y''
     = Some (0, 0) \<and>
   meta_name ([ex_named ''x'' ''mid'', ex_named ''x'' ''new''] ! 0) = Some ''x'' \<and>
   meta_name ([ex_named ''x'' ''mid'', ex_named ''x'' ''new''] ! 1) = Some ''x'' \<and>
   globalHandlersByName
     (pipeline_add [ex_named ''x'' ''mid'', ex_named ''x'' ''new'']
        (pipeline_add [ex_named ''y'' ''other'', ex_named ''x'' ''old''] (daisugi []))) ''x''
     = Some (1, 1) \<and>
   decorateWithExceptionCapture 2
     (pipeline_add [ex_jump ''j'' ''x'']
        (pipeline_add [ex_named ''x'' ''mid'', ex_named ''x'' ''new'']
           (pipeline_add [ex_named ''y'' ''other'', ex_named ''x'' ''old''] (daisugi []))))
     (Some (2, 0)) [VNum 1] []
     = Some (Return (VArr [VStr ''new'', VNum 1]), [''j'', ''new''])"
proof -
  let ?F = "pipeline_add [ex_named ''y'' ''other'', ex_named ''x'' ''old''] (daisugi [])
    :: log factory"
  let ?hs = "[ex_named ''x'' ''mid'', ex_named ''x'' ''new'']"
  have o: "globalHandlersByName ?F ''x'' = Some (0, 1)" "globalHandlersByName ?F ''y'' = Some (0, 0)"
    by code_simp+
  have l: "length (pipelines ?F) = 1" by code_simp
  have a: "list_all (\<lambda>h. meta_name h \<noteq> Some ''y'') ?hs" by code_simp
  have b: "meta_name (?hs ! 0) = Some ''x''" "meta_name (?hs ! 1) = Some ''x''" by code_simp+
  have c: "list_all (\<lambda>h. meta_name h \<noteq> Some ''x'') (drop (Suc 1) ?hs)" by simp
  have y: "globalHandlersByName (pipeline_add ?hs ?F) ''y'' = Some (0, 0)"
    using last_registration_wins [where hs = ?hs and F = ?F and n = "''y''", THEN conjunct1] a o
    by simp
  have x: "globalHandlersByName (pipeline_add ?hs ?F) ''x'' = Some (1, 1)"
    using last_registration_wins [where hs = ?hs and F = ?F and n = "''x''" and j = 1,
        THEN conjunct2, THEN mp, THEN conjunct1] b c l
    by simp
  have e: "decorateWithExceptionCapture 2 (pipeline_add [ex_jump ''j'' ''x''] (pipeline_add ?hs ?F))
     (Some (2, 0)) [VNum 1] [] = Some (Return (VArr [VStr ''new'', VNum 1]), [''j'', ''new''])"
    by code_simp
  show ?thesis using o a b x y e by simp
qed

subsection \<open>C9: a synchronous handler that returns a promise\<close>

text \<open>
  C9 says that a handler declared without \<^verbatim>\<open>async\<close> that returns a promise is classified
  synchronous, so that in a chain without toolkit its promise is passed to the next
  handler without being awaited. The classification is as stated, but whether the value
  is awaited depends on the mark of the successor. Here the first handler returns a
  promise resolved with 1 and the second is async, hence marked: the second handler
  receives 1, not the promise (the last equation shows what it returns on the promise).
\<close>

theorem contagion_awaits_sync_promise:
  "plain_sync (ex_promise ''p'') \<and> \<not> meta_injectToolkit (ex_async_tag ''n'') \<and>
   \<not> isAsync (pipelines (pipeline_add [ex_promise ''p'', ex_async_tag ''n''] (daisugi [])) ! 0 ! 0) \<and>
   body (ex_promise ''p'') [VNum 1] None [] = (Return (VResolved (VNum 1)), [''p'']) \<and>
   invoke (pipeline_add [ex_promise ''p'', ex_async_tag ''n''] (daisugi [])) (Some (0, 0)) [VNum 1] []
     = (Return (VResolved (VArr [VStr ''n'', VNum 1])), [''p'', ''n'']) \<and>
   invoke (pipeline_add [ex_promise ''p'', ex_async_tag ''n''] (daisugi [])) (Some (0, 1))
       [VResolved (VNum 1)] [''p'']
     = (Return (VResolved (VArr [VStr ''n'', VResolved (VNum 1)])), [''p'', ''n''])"
  by code_simp

text \<open>
  C9, amended. The engine classifies a handler as asynchronous exactly when the name of its
  constructor is \<^verbatim>\<open>'AsyncFunction'\<close>, whatever the handler returns. In a factory without
  decorators, when a handler that is synchronous and without toolkit has a successor, and
  the first argument does not carry the stop-propagation code: if no handler after it in
  the chain is async, the value it returns, a promise included, is passed as it is, as
  sole argument, to the next handler; if a handler after it is async, the successor
  carries the treat-as-async mark and the value is awaited first, the successor being
  chained by \<^verbatim>\<open>then\<close> to \<^verbatim>\<open>Promise.resolve\<close> of the value.
\<close>

theorem sync_promise_passed_unawaited:
  "(j < length hs \<longrightarrow>
      isAsync (pipelines (pipeline_add hs F) ! length (pipelines F) ! j) =
        (constructor_name (hs ! j) = ''AsyncFunction'')) \<and>
   (Suc j < length hs \<and> plain_sync (hs ! j) \<and> \<not> list_ex isFnAsync (drop (Suc j) hs) \<and>
    userHandlerDecorators F = [] \<and>
    field ''code'' (arg0 args) \<noteq> VStr stopPropagationExceptionCode \<and>
    body (hs ! j) args None s = (Return v, s') \<longrightarrow>
      invoke (pipeline_add hs F) (Some (length (pipelines F), j)) args s =
        invoke (pipeline_add hs F) (Some (length (pipelines F), Suc j)) [v] s') \<and>
   (Suc j < length hs \<and> plain_sync (hs ! j) \<and> list_ex isFnAsync (drop (Suc j) hs) \<and>
    userHandlerDecorators F = [] \<and>
    field ''code'' (arg0 args) \<noteq> VStr stopPropagationExceptionCode \<and>
    body (hs ! j) args None s = (Return v, s') \<longrightarrow>
      shouldBeTreatAsAsync (pipelines (pipeline_add hs F) ! length (pipelines F) ! Suc j) \<and>
      invoke (pipeline_add hs F) (Some (length (pipelines F), j)) args s =
        then_val (promise_resolve v) s'
          (invoke (pipeline_add hs F) (Some (length (pipelines F), Suc j))))"
proof -
  have "invoke (pipeline_add hs F) (Some (length (pipelines F), j)) args s =
        invoke (pipeline_add hs F) (Some (length (pipelines F), Suc j)) [v] s'"
    if sjl: "Suc j < length hs" and ps: "plain_sync (hs ! j)"
      and ex: "\<not> list_ex isFnAsync (drop (Suc j) hs)" and ds: "userHandlerDecorators F = []"
      and ns: "field ''code'' (arg0 args) \<noteq> VStr stopPropagationExceptionCode"
      and b: "body (hs ! j) args None s = (Return v, s')"
  proof -
    have jl: "j < length hs" using sjl by simp
    have ex': "\<not> list_ex isFnAsync (drop (Suc (Suc j)) hs)" "\<not> isFnAsync (hs ! Suc j)"
      using ex sjl by (simp_all add: Cons_nth_drop_Suc [symmetric])
    show ?thesis
      using ps ex ex' ds ns b
      by (simp add: invoke_pipeline_add wraps_drop_Cons [OF jl] wraps_drop_Cons [OF sjl]
          plain_sync_def decoratedUserHandler_def call_user_def)
  qed
  moreover have "shouldBeTreatAsAsync (pipelines (pipeline_add hs F) ! length (pipelines F) ! Suc j) \<and>
      invoke (pipeline_add hs F) (Some (length (pipelines F), j)) args s =
        then_val (promise_resolve v) s'
          (invoke (pipeline_add hs F) (Some (length (pipelines F), Suc j)))"
    if sjl: "Suc j < length hs" and ps: "plain_sync (hs ! j)"
      and ex: "list_ex isFnAsync (drop (Suc j) hs)" and ds: "userHandlerDecorators F = []"
      and ns: "field ''code'' (arg0 args) \<noteq> VStr stopPropagationExceptionCode"
      and b: "body (hs ! j) args None s = (Return v, s')"
  proof -
    have ni: "\<not> meta_injectToolkit (hs ! j)" "\<not> isFnAsync (hs ! j)"
      using ps by (simp_all add: plain_sync_def)
    have m: "shouldBeTreatAsAsync (pipelines (pipeline_add hs F) ! length (pipelines F) ! Suc j)"
      using sjl ex by (simp add: pipelines_pipeline_add wraps_nth)
    have "invoke (pipeline_add hs F) (Some (length (pipelines F), j)) args s =
        then_val (promise_resolve v) s'
          (invoke (pipeline_add hs F) (Some (length (pipelines F), Suc j)))"
      using invoke_plain_awaited [OF sjl ni(1) ex ns, of F s] ni(2) ds b
      by (simp add: decoratedUserHandler_def call_user_def)
    then show ?thesis using m by simp
  qed
  ultimately show ?thesis by (simp add: pipelines_pipeline_add wraps_nth isFnAsync_def)
qed

text \<open>
  The amended C9 at a handler that returns a promise: followed by a synchronous handler,
  which receives the promise itself, and followed by an async handler, which receives the
  value the promise is resolved with.
\<close>

theorem sync_promise_passed_unawaited_witness:
  "Suc 0 < length [ex_promise ''p'', ex_tag ''n''] \<and>
   plain_sync ([ex_promise ''p'', ex_tag ''n''] ! 0) \<and>
   \<not> list_ex isFnAsync (drop (Suc 0) [ex_promise ''p'', ex_tag ''n'']) \<and>
   body ([ex_promise ''p'', ex_tag ''n''] ! 0) [VNum 1] None []
     = (Return (VResolved (VNum 1)), [''p'']) \<and>
   \<not> isAsync (pipelines (pipeline_add [ex_promise ''p'', ex_tag ''n''] (daisugi [])) ! 0 ! 0) \<and>
   invoke (pipeline_add [ex_promise ''p'', ex_tag ''n''] (daisugi [])) (Some (0, 0)) [VNum 1] []
     = (Return (VArr [VStr ''n'', VResolved (VNum 1)]), [''p'', ''n'']) \<and>
   plain_sync ([ex_promise ''p'', ex_async_tag ''n''] ! 0) \<and>
   list_ex isFnAsync (drop (Suc 0) [ex_promise ''p'', ex_async_tag ''n'']) \<and>
   body ([ex_promise ''p'', ex_async_tag ''n''] ! 0) [VNum 2] None []
     = (Return (VResolved (VNum 2)), [''p'']) \<and>
   shouldBeTreatAsAsync
     (pipelines (pipeline_add [ex_promise ''p'', ex_async_tag ''n''] (daisugi [])) ! 0 ! Suc 0) \<and>
   invoke (pipeline_add [ex_promise ''p'', ex_async_tag ''n''] (daisugi [])) (Some (0, 0)) [VNum 2] []
     = (Return (VResolved (VArr [VStr ''n'', VNum 2])), [''p'', ''n''])"
proof -
  let ?hs = "[ex_promise ''p'', ex_tag ''n'']"
  let ?as = "[ex_promise ''p'', ex_async_tag ''n'']"
  have a: "Suc 0 < length ?hs" by simp
  have b: "plain_sync (?hs ! 0)" by code_simp
  have c: "\<not> list_ex isFnAsync (drop (Suc 0) ?hs)" by code_simp
  have d: "userHandlerDecorators (daisugi [] :: log factory) = []" by (simp add: daisugi_def)
  have e: "field ''code'' (arg0 [VNum 1]) \<noteq> VStr stopPropagationExceptionCode" by simp
  have f: "body (?hs ! 0) [VNum 1] None [] = (Return (VResolved (VNum 1)), [''p''])" by code_simp
  have g: "length (pipelines (daisugi [] :: log factory)) = 0" by (simp add: daisugi_def)
  have n: "invoke (pipeline_add ?hs (daisugi [])) (Some (0, Suc 0)) [VResolved (VNum 1)] [''p'']
     = (Return (VArr [VStr ''n'', VResolved (VNum 1)]), [''p'', ''n''])" by code_simp
  have k: "constructor_name (?hs ! 0) \<noteq> ''AsyncFunction''" by code_simp
  note inst = sync_promise_passed_unawaited [where hs = ?hs and j = 0 and F = "daisugi []"
      and args = "[VNum 1]" and s = "[]" and v = "VResolved (VNum 1)" and s' = "[''p'']"]
  have i: "invoke (pipeline_add ?hs (daisugi [])) (Some (0, 0)) [VNum 1] []
      = invoke (pipeline_add ?hs (daisugi [])) (Some (0, Suc 0)) [VResolved (VNum 1)] [''p'']"
    using inst a b c d e f g by simp
  have l: "\<not> isAsync (pipelines (pipeline_add ?hs (daisugi [])) ! 0 ! 0)"
    using inst k g by simp
  have aa: "Suc 0 < length ?as" by simp
  have ab: "plain_sync (?as ! 0)" by code_simp
  have ac: "list_ex isFnAsync (drop (Suc 0) ?as)" by code_simp
  have ae: "field ''code'' (arg0 [VNum 2]) \<noteq> VStr stopPropagationExceptionCode" by simp
  have af: "body (?as ! 0) [VNum 2] None [] = (Return (VResolved (VNum 2)), [''p''])" by code_simp
  have an: "then_val (promise_resolve (VResolved (VNum 2))) [''p'']
      (invoke (pipeline_add ?as (daisugi [])) (Some (0, Suc 0)))
     = (Return (VResolved (VArr [VStr ''n'', VNum 2])), [''p'', ''n''])" by code_simp
  note ainst = sync_promise_passed_unawaited [where hs = ?as and j = 0 and F = "daisugi []"
      and args = "[VNum 2]" and s = "[]" and v = "VResolved (VNum 2)" and s' = "[''p'']",
      THEN conjunct2, THEN conjunct2]
  have am: "shouldBeTreatAsAsync (pipelines (pipeline_add ?as (daisugi [])) ! 0 ! Suc 0)"
    using ainst aa ab ac d ae af g by simp
  have ai: "invoke (pipeline_add ?as (daisugi [])) (Some (0, 0)) [VNum 2] []
      = then_val (promise_resolve (VResolved (VNum 2))) [''p'']
          (invoke (pipeline_add ?as (daisugi [])) (Some (0, Suc 0)))"
    using ainst aa ab ac d ae af g by simp
  show ?thesis using a b c f i l n ab ac af am ai an by simp
qed

subsection \<open>C10: the empty pipeline\<close>

text \<open>
  C10. For the empty list of handlers \<^verbatim>\<open>sequenceOf\<close> returns \<^verbatim>\<open>handlers[0]\<close> of an empty array,
  that is no handler; \<^verbatim>\<open>entrySequenceOf\<close> returns a function, the interpreter closure of that
  absent handler, and every invocation of the closure, on any arguments and in any state,
  throws a \<^verbatim>\<open>TypeError\<close> and returns nothing.
\<close>

theorem empty_pipeline:
  "fst (sequenceOf [] F) = None \<and>
   fst (entrySequenceOf [] F) = VCapture None \<and>
   call_entry (Suc n) (snd (entrySequenceOf [] F)) (fst (entrySequenceOf [] F)) args s
     = Some (Throw VTypeError, s)"
  by (simp add: sequenceOf_def entrySequenceOf_def first_handler_def)

text \<open>C10 in a new factory.\<close>

theorem empty_pipeline_witness:
  "fst (sequenceOf [] (daisugi [] :: log factory)) = None \<and>
   fst (entrySequenceOf [] (daisugi [] :: log factory)) = VCapture None \<and>
   call_entry (Suc 0) (snd (entrySequenceOf [] (daisugi [] :: log factory)))
      (fst (entrySequenceOf [] (daisugi [] :: log factory))) [VNum 1] []
     = Some (Throw VTypeError, [])"
  using empty_pipeline [where F = "daisugi [] :: log factory" and n = 0 and args = "[VNum 1]"
      and s = "[]"]
  by blast

end
